theory Spec2Isabelle
  imports Complex_Main "HOL-Library.AList" "HOL-Library.Multiset" "HOL-Library.Word"
begin

section \<open>Python values\<close>

text \<open>
  The classifier of \<^verbatim>\<open>app/services/ml_service.py\<close> returns loosely shaped
  dictionaries. A dictionary is modelled as an association list in insertion order,
  read with \<^const>\<open>map_of\<close> and overwritten with \<open>AList.update\<close>; the values are the
  Python values that occur in those dictionaries. A float is modelled as the real number
  it denotes (no NaN, no infinity); the operations on scores that round are parameters,
  see \<open>ndarray\<close>. Logging is not modelled.
\<close>

datatype pyval =
    PNone
  | PBool bool
  | PInt int
  | PFloat real
  | PStr string
  | PTuple "pyval list"
  | PList "pyval list"
  | PDict "(string \<times> pyval) list"

type_synonym pydict = "(string \<times> pyval) list"

section \<open>The classifier object\<close>

text \<open>
  \<^verbatim>\<open>RiceDiseaseClassifier.__init__\<close>: the three mutable attributes form the state;
  \<^verbatim>\<open>class_names\<close> and \<^verbatim>\<open>disease_info\<close> are never reassigned and are constants.
  The Keras model is an external object: only its \<^verbatim>\<open>predict\<close> method is used, which
  takes a batch of images and either raises (\<open>Inl\<close> the message) or returns
  \<^verbatim>\<open>None\<close> or a NumPy array of score vectors.

  The array has the dtype of the model's output, \<^verbatim>\<open>float32\<close> unless the model says
  otherwise. A score is modelled as the real number it denotes: sorting, the maximum and
  the conversion to a Python float are exact on it. Two operations of \<^verbatim>\<open>predict\<close>
  are not, and belong to the array: the subtraction of two of its elements, which rounds
  to the dtype, and the comparison of such a difference with a Python float, which
  follows NumPy's promotion rules.
\<close>

type_synonym tensor4 = "real list list list list"

record ndarray =
  array_rows :: "real list list"
  array_subtract :: "real \<Rightarrow> real \<Rightarrow> real"
  array_ge_float :: "real \<Rightarrow> real \<Rightarrow> bool"

datatype keras_model =
  KerasModel (model_predict: "tensor4 \<Rightarrow> string + ndarray option")

record classifier =
  model :: "keras_model option"
  model_loaded :: bool
  load_error :: "string option"

definition init :: classifier where
  "init = \<lparr> model = None, model_loaded = False, load_error = None \<rparr>"

definition class_names :: "string list" where
  "class_names =
     [''bacterial_blight'', ''brown_spot'', ''healthy'', ''leaf_blast'', ''tungro'']"

definition disease_info :: "(string \<times> pydict) list" where
  "disease_info =
     [(''bacterial_blight'',
         [(''name'', PStr ''Bacterial Blight''),
          (''description'',
             PStr ''Bacterial disease causing water-soaked lesions on leaf margins'')]),
      (''brown_spot'',
         [(''name'', PStr ''Brown Spot''),
          (''description'',
             PStr ''Fungal disease causing brown, oval spots with gray centers'')]),
      (''healthy'',
         [(''name'', PStr ''Healthy Leaf''),
          (''description'', PStr ''No disease detected - leaf appears healthy'')]),
      (''leaf_blast'',
         [(''name'', PStr ''Leaf Blast''),
          (''description'',
             PStr ''Fungal disease causing diamond-shaped lesions with gray centers'')]),
      (''tungro'',
         [(''name'', PStr ''Tungro''),
          (''description'',
             PStr ''Viral disease causing yellow-orange discoloration and stunting'')])]"

text \<open>
  \<^verbatim>\<open>d[k]\<close> on a dictionary. Python raises \<^verbatim>\<open>KeyError\<close> on a missing key; the
  model returns \<^const>\<open>PNone\<close> there, and the lemmas \<open>class_names_info\<close>,
  \<open>info_has_name\<close> and \<open>validate_has_valid\<close> below show that no lookup of the
  classifier reaches that branch.
\<close>

definition getitem :: "pydict \<Rightarrow> string \<Rightarrow> pyval" where
  "getitem d k = (case map_of d k of Some v \<Rightarrow> v | None \<Rightarrow> PNone)"

definition info_of :: "string \<Rightarrow> pydict" where
  "info_of disease = (case map_of disease_info disease of Some i \<Rightarrow> i | None \<Rightarrow> [])"

text \<open>\<^verbatim>\<open>is_model_available\<close>.\<close>

definition is_model_available :: "classifier \<Rightarrow> bool" where
  "is_model_available self \<longleftrightarrow> model_loaded self \<and> model self \<noteq> None"

section \<open>Configuration and operating system\<close>

text \<open>
  The three options of \<^verbatim>\<open>app/core/config.py\<close> that the classifier reads. The class
  \<^verbatim>\<open>Settings\<close> declares \<^verbatim>\<open>CONFIDENCE_MARGIN\<close> with a default, so
  \<^verbatim>\<open>hasattr(settings, 'CONFIDENCE_MARGIN')\<close> is true.
\<close>

record settings =
  MODEL_PATH :: string
  CONFIDENCE_THRESHOLD :: real
  CONFIDENCE_MARGIN :: real

text \<open>
  What the classifier asks of the standard library and of TensorFlow is a parameter:
  the working directory, \<^verbatim>\<open>__file__\<close>, the functions of \<^verbatim>\<open>os.path\<close> and
  \<^verbatim>\<open>tf.keras.models.load_model\<close>. A call that can raise returns \<open>Inl\<close> the
  message of the exception. \<^verbatim>\<open>os.getcwd\<close> is taken not to raise.
\<close>

record os_env =
  getcwd :: string
  module_file :: string
  path_join :: "string \<Rightarrow> string list \<Rightarrow> string"
  path_dirname :: "string \<Rightarrow> string"
  path_isabs :: "string \<Rightarrow> bool"
  path_abspath :: "string \<Rightarrow> string"
  path_exists :: "string \<Rightarrow> bool"
  path_getsize :: "string \<Rightarrow> string + nat"
  keras_load_model :: "string \<Rightarrow> string + keras_model"

section \<open>The model resolver\<close>

text \<open>
  \<^verbatim>\<open>_resolve_model_path\<close>: the candidate list in the order of the source, the
  \<^verbatim>\<open>None\<close> entries filtered out, then the \<^verbatim>\<open>for\<close> loop.
\<close>

definition candidate_paths :: "os_env \<Rightarrow> settings \<Rightarrow> string option list" where
  "candidate_paths os cfg =
     [Some (path_join os (getcwd os) [''ml'', ''model.h5'']),
      Some (path_join os (path_dirname os (getcwd os)) [''ml'', ''model.h5'']),
      Some (path_join os (path_dirname os (module_file os))
              [''..'', ''..'', ''ml'', ''model.h5'']),
      Some (path_join os (path_dirname os (module_file os))
              [''..'', ''..'', MODEL_PATH cfg]),
      Some (path_join os (path_dirname os (module_file os))
              [''..'', ''..'', ''..'', ''riceguard'', ''ml'', ''model.h5'']),
      (if path_isabs os (MODEL_PATH cfg) then Some (MODEL_PATH cfg) else None)]"

definition possible_paths :: "os_env \<Rightarrow> settings \<Rightarrow> string list" where
  "possible_paths os cfg = map the (filter (\<lambda>path. path \<noteq> None) (candidate_paths os cfg))"

fun first_existing :: "os_env \<Rightarrow> string list \<Rightarrow> string option" where
  "first_existing os [] = None"
| "first_existing os (model_path # rest) =
     (if path_exists os model_path then Some (path_abspath os model_path)
      else first_existing os rest)"

definition resolve_model_path :: "os_env \<Rightarrow> settings \<Rightarrow> string option" where
  "resolve_model_path os cfg = first_existing os (possible_paths os cfg)"

text \<open>
  \<^verbatim>\<open>load_model\<close>. \<open>load_model_try\<close> is the body of the \<^verbatim>\<open>try\<close> block: \<open>Inl\<close>
  is an exception raised inside it (by \<^verbatim>\<open>os.path.getsize\<close> or by the Keras loader),
  \<open>Inr\<close> a return. No attribute is assigned before a call that can raise, so the
  handler sees the object as it was on entry. The file size only feeds a log message.
\<close>

definition load_model_try ::
  "os_env \<Rightarrow> settings \<Rightarrow> classifier \<Rightarrow> string + (classifier \<times> bool)" where
  "load_model_try os cfg self =
     (case resolve_model_path os cfg of
        None \<Rightarrow>
          Inr (self\<lparr>load_error := Some ''Model file not found in any expected location'',
                    model_loaded := False\<rparr>, False)
      | Some model_path \<Rightarrow>
          if \<not> path_exists os model_path then
            Inr (self\<lparr>load_error :=
                        Some (''Model path resolved but file not found: '' @ model_path),
                      model_loaded := False\<rparr>, False)
          else
            (case path_getsize os model_path of
               Inl e \<Rightarrow> Inl e
             | Inr file_size \<Rightarrow>
                 (case keras_load_model os model_path of
                    Inl e \<Rightarrow> Inl e
                  | Inr m \<Rightarrow>
                      Inr (self\<lparr>model := Some m, model_loaded := True,
                                load_error := None\<rparr>, True))))"

definition load_model :: "os_env \<Rightarrow> settings \<Rightarrow> classifier \<Rightarrow> classifier \<times> bool" where
  "load_model os cfg self =
     (if model_loaded self then (self, True)
      else
        (case load_model_try os cfg self of
           Inr r \<Rightarrow> r
         | Inl e \<Rightarrow>
             (self\<lparr>load_error := Some (''Failed to load ML model: '' @ e),
                    model := None, model_loaded := False\<rparr>, False)))"

section \<open>A POSIX operating system\<close>

text \<open>
  One instance of the parameters above, after CPython's \<^verbatim>\<open>posixpath\<close>
  (\<^verbatim>\<open>isabs\<close>, \<^verbatim>\<open>join\<close>, \<^verbatim>\<open>dirname\<close>, \<^verbatim>\<open>normpath\<close>, \<^verbatim>\<open>abspath\<close>) over a
  file system given as the list of its files (no symbolic links). It serves to run the
  resolver on concrete inputs.
\<close>

definition posix_isabs :: "string \<Rightarrow> bool" where
  "posix_isabs s = (case s of [] \<Rightarrow> False | c # _ \<Rightarrow> c = CHR ''/'')"

definition posix_join2 :: "string \<Rightarrow> string \<Rightarrow> string" where
  "posix_join2 path b =
     (if posix_isabs b then b
      else if path = [] \<or> last path = CHR ''/'' then path @ b
      else path @ ''/'' @ b)"

definition posix_join :: "string \<Rightarrow> string list \<Rightarrow> string" where
  "posix_join a p = foldl posix_join2 a p"

definition posix_dirname :: "string \<Rightarrow> string" where
  "posix_dirname p =
     (let head = rev (dropWhile (\<lambda>c. c \<noteq> CHR ''/'') (rev p))
      in if head \<noteq> [] \<and> \<not> list_all (\<lambda>c. c = CHR ''/'') head
         then rev (dropWhile (\<lambda>c. c = CHR ''/'') (rev head))
         else head)"

fun split_sep :: "string \<Rightarrow> string list" where
  "split_sep [] = [[]]"
| "split_sep (c # cs) =
     (if c = CHR ''/'' then [] # split_sep cs
      else (case split_sep cs of [] \<Rightarrow> [[c]] | w # ws \<Rightarrow> (c # w) # ws))"

fun join_sep :: "string list \<Rightarrow> string" where
  "join_sep [] = []"
| "join_sep [part] = part"
| "join_sep (part # parts) = part @ ''/'' @ join_sep parts"

definition norm_step :: "nat \<Rightarrow> string list \<Rightarrow> string \<Rightarrow> string list" where
  "norm_step initial_slashes new_comps part =
     (if part = [] \<or> part = ''.'' then new_comps
      else if part \<noteq> ''..'' \<or> (initial_slashes = 0 \<and> new_comps = [])
              \<or> (new_comps \<noteq> [] \<and> last new_comps = ''..'')
        then new_comps @ [part]
      else if new_comps \<noteq> [] then butlast new_comps
      else new_comps)"

definition posix_normpath :: "string \<Rightarrow> string" where
  "posix_normpath path =
     (if path = [] then ''.''
      else
        let initial_slashes =
              (if posix_isabs path then
                 (if take 2 path = ''//'' \<and> take 3 path \<noteq> ''///'' then 2 else 1)
               else (0::nat));
            comps = foldl (norm_step initial_slashes) [] (split_sep path);
            joined = replicate initial_slashes CHR ''/'' @ join_sep comps
        in if joined = [] then ''.'' else joined)"

definition posix_abspath :: "string \<Rightarrow> string \<Rightarrow> string" where
  "posix_abspath cwd path =
     posix_normpath (if posix_isabs path then path else posix_join cwd [path])"

definition posix_env ::
  "string \<Rightarrow> string \<Rightarrow> string list \<Rightarrow> (string \<Rightarrow> string + keras_model) \<Rightarrow> os_env" where
  "posix_env cwd file files loader =
     \<lparr> getcwd = cwd,
       module_file = file,
       path_join = posix_join,
       path_dirname = posix_dirname,
       path_isabs = posix_isabs,
       path_abspath = posix_abspath cwd,
       path_exists = (\<lambda>p. posix_abspath cwd p \<in> set files),
       path_getsize =
         (\<lambda>p. if posix_abspath cwd p \<in> set files then Inr (2 * 1024 * 1024)
              else Inl ''No such file or directory''),
       keras_load_model = loader \<rparr>"

section \<open>The fallback generator\<close>

text \<open>\<^verbatim>\<open>_get_fallback_prediction\<close> (the leading underscore is not an Isabelle name).\<close>

definition get_fallback_prediction :: "string \<Rightarrow> pydict" where
  "get_fallback_prediction reason =
     [(''disease'', PStr ''healthy''),
      (''disease_name'', PStr ''Healthy Leaf''),
      (''confidence'', PFloat 0.5),
      (''description'',
         PStr ''Unable to process image - defaulting to healthy classification''),
      (''success'', PBool False),
      (''fallback_reason'', PStr reason),
      (''model_status'', PStr ''unavailable''),
      (''confidence_threshold_met'', PBool False),
      (''all_predictions'',
         PList (map (\<lambda>disease.
                  PDict [(''disease'', PStr disease),
                         (''confidence'',
                            PFloat (if disease \<noteq> ''healthy'' then 0.2 else 0.5)),
                         (''disease_name'', getitem (info_of disease) ''name'')])
                class_names))]"

section \<open>Images\<close>

text \<open>
  Pillow is an external library. An image object carries what the classifier reads of
  it: \<^verbatim>\<open>format\<close>, \<^verbatim>\<open>mode\<close>, \<^verbatim>\<open>size\<close> (width, height), and its pixel data
  as rows of pixels of 8-bit bands, which is what \<^verbatim>\<open>np.array(image)\<close> lays out as
  (height, width, bands). The operations are parameters; \<open>Inl\<close> is an exception.
  \<^verbatim>\<open>Image.open\<close> only reads the header, so a later operation can still fail on the
  pixel data. \<^verbatim>\<open>Image.Resampling.LANCZOS\<close> and \<^verbatim>\<open>Image.LANCZOS\<close> name the same
  filter, so the two \<^verbatim>\<open>resize\<close> calls of the source are one operation.
\<close>

type_synonym bytes = "8 word list"

record pil_image =
  img_format :: "string option"
  img_mode :: string
  img_size :: "nat \<times> nat"
  img_data :: "8 word list list list"

record pil_lib =
  Image_open :: "bytes \<Rightarrow> string + pil_image"
  Image_verify :: "pil_image \<Rightarrow> string + unit"
  Image_convert :: "pil_image \<Rightarrow> string \<Rightarrow> string + pil_image"
  Image_resize :: "pil_image \<Rightarrow> nat \<times> nat \<Rightarrow> string + pil_image"

text \<open>\<^verbatim>\<open>np.array(image, dtype=np.float32)\<close> and the test on \<^verbatim>\<open>.shape\<close>.\<close>

definition np_array :: "pil_image \<Rightarrow> real list list list" where
  "np_array img = map (map (map (\<lambda>band. real (unat band)))) (img_data img)"

definition has_shape3 :: "nat \<times> nat \<times> nat \<Rightarrow> 'a list list list \<Rightarrow> bool" where
  "has_shape3 shape arr =
     (case shape of (h, w, c) \<Rightarrow>
        length arr = h
        \<and> list_all (\<lambda>row. length row = w \<and> list_all (\<lambda>px. length px = c) row) arr)"



section \<open>The preprocessor\<close>

text \<open>
  \<^verbatim>\<open>preprocess_image\<close>. \<open>open_checked\<close> is the inner \<^verbatim>\<open>try\<close> around
  \<^verbatim>\<open>Image.open\<close> with its second attempt; \<open>Inl\<close> is the \<^verbatim>\<open>return None\<close> of its
  handler. Any other exception reaches the outer handler, which returns \<^verbatim>\<open>None\<close>.
  The mean pixel value only feeds a log message.
\<close>

definition open_checked :: "pil_lib \<Rightarrow> bytes \<Rightarrow> string + pil_image" where
  "open_checked pil image_data =
     (case Image_open pil image_data of
        Inr img \<Rightarrow> Inr img
      | Inl first_error \<Rightarrow>
          (case Image_open pil image_data of
             Inl second_error \<Rightarrow> Inl second_error
           | Inr img \<Rightarrow>
               (case Image_verify pil img of
                  Inl second_error \<Rightarrow> Inl second_error
                | Inr _ \<Rightarrow> Image_open pil image_data)))"

definition to_rgb :: "pil_lib \<Rightarrow> pil_image \<Rightarrow> string + pil_image" where
  "to_rgb pil img =
     (if img_mode img \<noteq> ''RGB'' then Image_convert pil img ''RGB'' else Inr img)"

definition target_size :: "nat \<times> nat" where
  "target_size = (224, 224)"

definition preprocess_image :: "pil_lib \<Rightarrow> bytes \<Rightarrow> tensor4 option" where
  "preprocess_image pil image_data =
     (if image_data = [] then None
      else if length image_data < 100 then None
      else
        (case open_checked pil image_data of
           Inl second_error \<Rightarrow> None
         | Inr img \<Rightarrow>
             (case to_rgb pil img of
                Inl e \<Rightarrow> None
              | Inr rgb \<Rightarrow>
                  (case Image_resize pil rgb target_size of
                     Inl e \<Rightarrow> None
                   | Inr resized \<Rightarrow>
                       let image_array = np_array resized in
                       if \<not> has_shape3 (224, 224, 3) image_array then None
                       else Some [map (map (map (\<lambda>v. v / 255))) image_array]))))"

section \<open>Coarse validation\<close>

text \<open>\<^verbatim>\<open>validate_image_data\<close>. \<open>str_format\<close> is \<^verbatim>\<open>str(image.format)\<close>.\<close>

definition format_value :: "string option \<Rightarrow> pyval" where
  "format_value f = (case f of None \<Rightarrow> PNone | Some s \<Rightarrow> PStr s)"

definition str_format :: "string option \<Rightarrow> string" where
  "str_format f = (case f of None \<Rightarrow> ''None'' | Some s \<Rightarrow> s)"

definition validate_image_data :: "pil_lib \<Rightarrow> bytes \<Rightarrow> pydict" where
  "validate_image_data pil image_data =
     (if image_data = [] then
        [(''valid'', PBool False),
         (''error'', PStr ''No image data provided''),
         (''size'', PInt 0)]
      else
        (case Image_open pil image_data of
           Inl e \<Rightarrow>
             [(''valid'', PBool False),
              (''error'', PStr (''Invalid image data: '' @ e)),
              (''size'', PInt (int (length image_data)))]
         | Inr img \<Rightarrow>
             let info =
               [(''valid'', PBool True),
                (''format'', format_value (img_format img)),
                (''mode'', PStr (img_mode img)),
                (''size'', PTuple [PInt (int (fst (img_size img))),
                                   PInt (int (snd (img_size img)))]),
                (''file_size'', PInt (int (length image_data)))]
             in
               if length image_data > 50 * 1024 * 1024 then
                 AList.update ''error'' (PStr ''Image too large (>50MB)'')
                   (AList.update ''valid'' (PBool False) info)
               else if fst (img_size img) < 50 \<or> snd (img_size img) < 50 then
                 AList.update ''error'' (PStr ''Image too small (<50x50 pixels)'')
                   (AList.update ''valid'' (PBool False) info)
               else if img_format img \<notin>
                         set (map Some [''JPEG'', ''JPG'', ''PNG'', ''BMP'', ''TIFF'']) then
                 AList.update ''warning''
                   (PStr (''Unusual image format: '' @ str_format (img_format img))) info
               else info))"

section \<open>The predictor\<close>

text \<open>
  \<^verbatim>\<open>np.argmax\<close> (the first index of the maximum) and \<^verbatim>\<open>np.max\<close>; both raise
  \<^verbatim>\<open>ValueError\<close> on an empty array.
\<close>

fun argmax_from :: "nat \<Rightarrow> real \<Rightarrow> nat \<Rightarrow> real list \<Rightarrow> nat" where
  "argmax_from best v i [] = best"
| "argmax_from best v i (x # xs) =
     (if v < x then argmax_from i x (Suc i) xs else argmax_from best v (Suc i) xs)"

definition np_argmax :: "real list \<Rightarrow> string + nat" where
  "np_argmax a =
     (case a of
        [] \<Rightarrow> Inl ''attempt to get argmax of an empty sequence''
      | x # xs \<Rightarrow> Inr (argmax_from 0 x 1 xs))"

definition np_max :: "real list \<Rightarrow> string + real" where
  "np_max a =
     (case a of
        [] \<Rightarrow> Inl ''zero-size array to reduction operation maximum which has no identity''
      | x # xs \<Rightarrow> Inr (foldl max x xs))"

text \<open>
  \<^verbatim>\<open>disease_key.replace("_", " ").title()\<close>, on ASCII strings: the default name
  that \<^verbatim>\<open>disease_info.get\<close> falls back on.
\<close>

definition is_lower :: "char \<Rightarrow> bool" where
  "is_lower c \<longleftrightarrow> 97 \<le> (of_char c :: nat) \<and> (of_char c :: nat) \<le> 122"

definition is_upper :: "char \<Rightarrow> bool" where
  "is_upper c \<longleftrightarrow> 65 \<le> (of_char c :: nat) \<and> (of_char c :: nat) \<le> 90"

fun title_from :: "bool \<Rightarrow> string \<Rightarrow> string" where
  "title_from previous_is_cased [] = []"
| "title_from previous_is_cased (c # cs) =
     (if is_lower c then
        (if previous_is_cased then c else char_of (of_char c - (32::nat))) # title_from True cs
      else if is_upper c then
        (if previous_is_cased then char_of (of_char c + (32::nat)) else c) # title_from True cs
      else c # title_from False cs)"

definition default_name :: "string \<Rightarrow> string" where
  "default_name disease_key =
     title_from False (map (\<lambda>c. if c = CHR ''_'' then CHR '' '' else c) disease_key)"

text \<open>
  The confidence decision of \<^verbatim>\<open>predict\<close> (the threshold, then the margin between
  the two largest scores of the descending sort), and the dictionary of a successful
  prediction. The confidence is a Python float and its comparison with the threshold is
  exact; the margin is a difference of two array elements, computed and compared by the
  array \<open>predictions\<close> they come from.
\<close>

definition decide_threshold :: "ndarray \<Rightarrow> settings \<Rightarrow> real \<Rightarrow> real list \<Rightarrow> bool" where
  "decide_threshold predictions cfg confidence prediction_array =
     (let meets_threshold = (confidence \<ge> CONFIDENCE_THRESHOLD cfg) in
      if meets_threshold then
        (let sorted_predictions = rev (sort prediction_array) in
         if length sorted_predictions \<ge> 2 then
           (let confidence_margin =
                  array_subtract predictions (sorted_predictions ! 0) (sorted_predictions ! 1)
            in meets_threshold
               \<and> array_ge_float predictions confidence_margin (CONFIDENCE_MARGIN cfg))
         else meets_threshold)
      else meets_threshold)"

definition prediction_result ::
  "string \<Rightarrow> pydict \<Rightarrow> real \<Rightarrow> bool \<Rightarrow> real list \<Rightarrow> pydict" where
  "prediction_result disease_key info confidence meets_threshold prediction_array =
     [(''disease'', PStr disease_key),
      (''disease_name'', getitem info ''name''),
      (''confidence'', PFloat confidence),
      (''description'', getitem info ''description''),
      (''success'', PBool True),
      (''model_status'', PStr ''loaded''),
      (''confidence_threshold_met'', PBool meets_threshold),
      (''all_predictions'',
         PList (map (\<lambda>i.
                  PDict [(''disease'', PStr (class_names ! i)),
                         (''confidence'', PFloat (prediction_array ! i)),
                         (''disease_name'', getitem (info_of (class_names ! i)) ''name'')])
                [0 ..< length class_names]))]"

text \<open>
  The \<^verbatim>\<open>try\<close> block of \<^verbatim>\<open>predict\<close>. A missing model object makes
  \<^verbatim>\<open>self.model.predict\<close> raise inside the inner \<^verbatim>\<open>try\<close>, like a failing
  forward pass. An exception of \<^verbatim>\<open>np.argmax\<close> or \<^verbatim>\<open>np.max\<close> reaches the outer
  handler.
\<close>

definition predict_try ::
  "pil_lib \<Rightarrow> settings \<Rightarrow> classifier \<Rightarrow> bytes \<Rightarrow> pydict \<times> bool" where
  "predict_try pil cfg self image_data =
     (case preprocess_image pil image_data of
        None \<Rightarrow> (get_fallback_prediction ''Image preprocessing failed'', False)
      | Some processed_image \<Rightarrow>
          (case (case model self of
                   None \<Rightarrow> Inl ''NoneType object has no attribute predict''
                 | Some m \<Rightarrow> model_predict m processed_image) of
             Inl predict_error \<Rightarrow> (get_fallback_prediction ''Model prediction failed'', False)
           | Inr predictions \<Rightarrow>
               (case predictions of
                  None \<Rightarrow> (get_fallback_prediction ''No predictions from model'', False)
                | Some scores \<Rightarrow>
                  (case array_rows scores of
                     [] \<Rightarrow> (get_fallback_prediction ''No predictions from model'', False)
                   | prediction_array # _ \<Rightarrow>
                    if length prediction_array \<noteq> length class_names then
                      (get_fallback_prediction ''Model output format mismatch'', False)
                    else
                      (case np_argmax prediction_array of
                         Inl e \<Rightarrow> (get_fallback_prediction (''Prediction error: '' @ e), False)
                       | Inr predicted_class_idx \<Rightarrow>
                           (case np_max prediction_array of
                              Inl e \<Rightarrow>
                                (get_fallback_prediction (''Prediction error: '' @ e), False)
                            | Inr top_score \<Rightarrow>
                                let confidence =
                                      (if \<not> (0 \<le> top_score \<and> top_score \<le> 1)
                                       then max 0 (min 1 top_score)
                                       else top_score)
                                in
                                  if predicted_class_idx < length class_names then
                                    (let disease_key = class_names ! predicted_class_idx;
                                         info =
                                           (case map_of disease_info disease_key of
                                              Some i \<Rightarrow> i
                                            | None \<Rightarrow>
                                                [(''name'', PStr (default_name disease_key)),
                                                 (''description'', PStr ''Unknown disease'')]);
                                         meets_threshold =
                                           decide_threshold scores cfg confidence
                                             prediction_array
                                     in (prediction_result disease_key info confidence
                                           meets_threshold prediction_array,
                                         meets_threshold))
                                  else
                                    (get_fallback_prediction ''Invalid prediction result'',
                                     False)))))))"

text \<open>
  \<^verbatim>\<open>predict\<close>: the result dictionary and the flag, with the classifier object as
  \<^verbatim>\<open>load_model\<close> leaves it. \<open>ensure_model\<close> is the lazy load at its head;
  \<open>is_valid\<close> reads \<^verbatim>\<open>validation_result["valid"]\<close> and \<open>error_of\<close> is
  \<^verbatim>\<open>validation_result.get('error', 'Unknown error')\<close>, a string whenever present.
\<close>

definition ensure_model :: "os_env \<Rightarrow> settings \<Rightarrow> classifier \<Rightarrow> classifier \<times> bool" where
  "ensure_model os cfg self =
     (if \<not> is_model_available self then load_model os cfg self else (self, True))"

definition is_valid :: "pydict \<Rightarrow> bool" where
  "is_valid validation_result = (getitem validation_result ''valid'' = PBool True)"

definition error_of :: "pydict \<Rightarrow> string" where
  "error_of validation_result =
     (case map_of validation_result ''error'' of
        Some (PStr s) \<Rightarrow> s
      | _ \<Rightarrow> ''Unknown error'')"

definition predict ::
  "os_env \<Rightarrow> pil_lib \<Rightarrow> settings \<Rightarrow> classifier \<Rightarrow> bytes \<Rightarrow> classifier \<times> pydict \<times> bool" where
  "predict os pil cfg self image_data =
     (if image_data = [] then
        (self,
         [(''disease'', PStr ''error''),
          (''confidence'', PFloat 0.0),
          (''error'', PStr ''No image data provided''),
          (''success'', PBool False)],
         False)
      else
        (case ensure_model os cfg self of
           (self', False) \<Rightarrow> (self', get_fallback_prediction ''Model not available'', False)
         | (self', True) \<Rightarrow>
             let validation_result = validate_image_data pil image_data in
             if \<not> is_valid validation_result then
               (self',
                [(''disease'', PStr ''error''),
                 (''confidence'', PFloat 0.0),
                 (''error'', PStr (''Invalid image: '' @ error_of validation_result)),
                 (''success'', PBool False),
                 (''validation_info'', PDict validation_result)],
                False)
             else (self', predict_try pil cfg self' image_data)))"

text \<open>
  The inputs on which \<^verbatim>\<open>predict\<close> returns its error result: empty bytes, or a
  model that is available together with a failed validation.
\<close>

definition error_branch :: "os_env \<Rightarrow> pil_lib \<Rightarrow> settings \<Rightarrow> classifier \<Rightarrow> bytes \<Rightarrow> bool" where
  "error_branch os pil cfg self image_data \<longleftrightarrow>
     image_data = []
     \<or> (snd (ensure_model os cfg self) \<and> \<not> is_valid (validate_image_data pil image_data))"

section \<open>The invariant of the classifier object\<close>

text \<open>
  A loaded flag implies a model object. The reachable objects are those that the
  constructor and any calls of \<^verbatim>\<open>load_model\<close> and \<^verbatim>\<open>predict\<close>, under any
  environment, produce.
\<close>

definition model_invariant :: "classifier \<Rightarrow> bool" where
  "model_invariant self \<longleftrightarrow> (model_loaded self \<longrightarrow> model self \<noteq> None)"

inductive reachable :: "classifier \<Rightarrow> bool" where
  reachable_init: "reachable init"
| reachable_load_model: "reachable self \<Longrightarrow> reachable (fst (load_model os cfg self))"
| reachable_predict:
    "reachable self \<Longrightarrow> reachable (fst (predict os pil cfg self image_data))"

section \<open>Reading a result\<close>

text \<open>
  What a caller reads from a returned dictionary: the score table as the list of
  (disease, confidence) pairs of \<^verbatim>\<open>all_predictions\<close>; \<open>None\<close> when the key is
  absent or an entry is not of that form.
\<close>

fun entry_score :: "pyval \<Rightarrow> (string \<times> real) option" where
  "entry_score (PDict d) =
     (case (map_of d ''disease'', map_of d ''confidence'') of
        (Some (PStr k), Some (PFloat c)) \<Rightarrow> Some (k, c)
      | _ \<Rightarrow> None)"
| "entry_score _ = None"

fun those_scores :: "pyval list \<Rightarrow> (string \<times> real) list option" where
  "those_scores [] = Some []"
| "those_scores (p # ps) =
     (case entry_score p of
        None \<Rightarrow> None
      | Some e \<Rightarrow> (case those_scores ps of None \<Rightarrow> None | Some es \<Rightarrow> Some (e # es)))"

definition all_scores :: "pydict \<Rightarrow> (string \<times> real) list option" where
  "all_scores res =
     (case map_of res ''all_predictions'' of
        Some (PList ps) \<Rightarrow> those_scores ps
      | _ \<Rightarrow> None)"

section \<open>Ranking of scores\<close>

text \<open>
  The words of the specification: the top score of a score vector is its largest entry,
  the second-ranked score is the largest entry once one occurrence of the top score is
  taken away, and a confidence is clamped into the interval from 0 to 1.
\<close>

definition top_score :: "real list \<Rightarrow> real" where
  "top_score scores = Max (set scores)"

definition second_score :: "real list \<Rightarrow> real" where
  "second_score scores = Max (set (remove1 (Max (set scores)) scores))"

definition clamp_confidence :: "real \<Rightarrow> real" where
  "clamp_confidence raw = (if \<not> (0 \<le> raw \<and> raw \<le> 1) then max 0 (min 1 raw) else raw)"

section \<open>Single-precision arrays\<close>

text \<open>
  One instance of the array operations: IEEE 754 binary32 with round to nearest, ties to
  even, on the finite range (no overflow to infinity). \<open>float32_ulp\<close> finds the
  spacing of the single-precision numbers around a value by doubling from the smallest
  spacing \<open>2 ^ -149\<close>: the spacing is \<open>u\<close> as soon as the value is below
  \<open>u * 2 ^ 24\<close>. The comparison with a Python float is taken in double precision, as
  NumPy 1 does; on the inputs below NumPy 2, which rounds the Python float to single
  precision first, gives the same answers.
\<close>

definition round_half_even :: "real \<Rightarrow> int" where
  "round_half_even q =
     (let f = \<lfloor>q\<rfloor> in
      if q - of_int f < 1 / 2 then f
      else if 1 / 2 < q - of_int f then f + 1
      else if even f then f else f + 1)"

fun ulp_search :: "nat \<Rightarrow> real \<Rightarrow> real \<Rightarrow> real" where
  "ulp_search 0 u a = u"
| "ulp_search (Suc fuel) u a = (if a < u * 2 ^ 24 then u else ulp_search fuel (2 * u) a)"

definition float32_ulp :: "real \<Rightarrow> real" where
  "float32_ulp x = ulp_search 253 (1 / 2 ^ 149) \<bar>x\<bar>"

definition float32_round :: "real \<Rightarrow> real" where
  "float32_round x = of_int (round_half_even (x / float32_ulp x)) * float32_ulp x"

definition float32_sub :: "real \<Rightarrow> real \<Rightarrow> real" where
  "float32_sub a b = float32_round (a - b)"

definition float32_array :: "real list list \<Rightarrow> ndarray" where
  "float32_array rows =
     \<lparr> array_rows = rows, array_subtract = float32_sub,
       array_ge_float = (\<lambda>difference margin. margin \<le> difference) \<rparr>"

section \<open>Example environments\<close>

text \<open>
  Concrete inputs on which the definitions are run: a model that scores one class at 0.5
  and the others at 0.125, a model whose two largest scores are 0.5 and the
  single-precision number nearest to 0.2, which is \<open>13421773 / 2 ^ 26\<close>, a file system
  holding a model file in the working directory and another at the configured absolute
  path, a file system with no model file, and one whose model file the Keras loader
  rejects. All scores are single-precision numbers.
\<close>

definition example_scores :: "real list" where
  "example_scores = [0.125, 0.125, 0.5, 0.125, 0.125]"

definition example_model :: keras_model where
  "example_model = KerasModel (\<lambda>batch. Inr (Some (float32_array [example_scores])))"




definition example_os :: os_env where
  "example_os =
     posix_env ''/srv/backend'' ''/srv/backend/app/services/ml_service.py''
       [''/srv/backend/ml/model.h5'', ''/opt/models/rice.h5'']
       (\<lambda>p. if p = ''/srv/backend/ml/model.h5'' then Inr example_model
            else Inl ''Unable to open file'')"

definition example_cfg :: settings where
  "example_cfg = \<lparr> MODEL_PATH = ''/opt/models/rice.h5'',
       CONFIDENCE_THRESHOLD = 0.5, CONFIDENCE_MARGIN = 0.3 \<rparr>"

definition empty_os :: os_env where
  "empty_os =
     posix_env ''/srv/backend'' ''/srv/backend/app/services/ml_service.py'' []
       (\<lambda>p. Inl ''Unable to open file'')"

definition corrupt_os :: os_env where
  "corrupt_os =
     posix_env ''/srv/backend'' ''/srv/backend/app/services/ml_service.py''
       [''/srv/backend/ml/model.h5'']
       (\<lambda>p. Inl ''file signature not found'')"

definition loaded_classifier :: classifier where
  "loaded_classifier = \<lparr>model = Some example_model, model_loaded = True, load_error = None\<rparr>"

text \<open>
  A stand-in for Pillow on uniformly coloured images: the header is recognised by the
  magic bytes of JPEG, GIF and BMP files, a conversion repeats a single band three
  times, and a resize of a uniform image is the uniform image of the new size.
\<close>

definition uniform_image :: "string option \<Rightarrow> string \<Rightarrow> nat \<Rightarrow> nat \<Rightarrow> 8 word list \<Rightarrow> pil_image" where
  "uniform_image fmt mode w h px =
     \<lparr> img_format = fmt, img_mode = mode, img_size = (w, h),
       img_data = replicate h (replicate w px) \<rparr>"

definition first_pixel :: "pil_image \<Rightarrow> 8 word list" where
  "first_pixel img = (case img_data img of (px # _) # _ \<Rightarrow> px | _ \<Rightarrow> [])"

definition example_pil :: pil_lib where
  "example_pil =
     \<lparr> Image_open = (\<lambda>d.
         if take 2 d = [0xFF, 0xD8] then
           Inr (uniform_image (Some ''JPEG'') ''RGB'' 300 300 [200, 120, 40])
         else if take 3 d = [0x47, 0x49, 0x46] then
           Inr (uniform_image (Some ''GIF'') ''P'' 100 100 [7])
         else if take 2 d = [0x42, 0x4D] then
           Inr (uniform_image (Some ''BMP'') ''RGB'' 20 20 [0, 0, 0])
         else Inl ''cannot identify image file''),
       Image_verify = (\<lambda>img. Inr ()),
       Image_convert = (\<lambda>img mode.
         Inr (uniform_image None mode (fst (img_size img)) (snd (img_size img))
                (case first_pixel img of [b] \<Rightarrow> [b, b, b] | px \<Rightarrow> px))),
       Image_resize = (\<lambda>img size.
         Inr (uniform_image None (img_mode img) (fst size) (snd size) (first_pixel img))) \<rparr>"

definition jpeg_bytes :: bytes where
  "jpeg_bytes = [0xFF, 0xD8] @ replicate 200 0"

definition gif_bytes :: bytes where
  "gif_bytes = [0x47, 0x49, 0x46] @ replicate 200 0"

definition bmp_bytes :: bytes where
  "bmp_bytes = [0x42, 0x4D] @ replicate 200 0"

definition huge_bytes :: bytes where
  "huge_bytes = [0xFF, 0xD8] @ replicate (50 * 1024 * 1024) 0"

section \<open>Properties of the fallback generator\<close>

lemma class_names_info:
  "map_of disease_info d \<noteq> None \<longleftrightarrow> d \<in> set class_names"
  by (simp add: disease_info_def class_names_def)

lemma info_has_name:
  "d \<in> set class_names \<Longrightarrow>
     \<exists>n s. map_of (info_of d) ''name'' = Some (PStr n)
         \<and> map_of (info_of d) ''description'' = Some (PStr s)"
  by (auto simp: info_of_def disease_info_def class_names_def)

lemma fallback_all_scores:
  "all_scores (get_fallback_prediction reason) =
     Some [(''bacterial_blight'', 0.2), (''brown_spot'', 0.2), (''healthy'', 0.5),
           (''leaf_blast'', 0.2), (''tungro'', 0.2)]"
  by (simp add: all_scores_def get_fallback_prediction_def class_names_def)

text \<open>
  C5. The fallback generator is a function of the reason string alone: for every
  reason the result has disease \<open>healthy\<close>, confidence exactly 0.5, success false,
  \<open>confidence_threshold_met\<close> false, \<open>fallback_reason\<close> equal to the given reason,
  and a full score table in which \<open>healthy\<close> gets 0.5 and each of the four other
  classes gets the same low score 0.2. Being a function, two calls with the same reason
  give the same dictionary.
\<close>

theorem fallback_prediction_fixed:
  "map_of (get_fallback_prediction reason) ''disease'' = Some (PStr ''healthy'')
   \<and> map_of (get_fallback_prediction reason) ''confidence'' = Some (PFloat 0.5)
   \<and> map_of (get_fallback_prediction reason) ''success'' = Some (PBool False)
   \<and> map_of (get_fallback_prediction reason) ''confidence_threshold_met''
       = Some (PBool False)
   \<and> map_of (get_fallback_prediction reason) ''fallback_reason'' = Some (PStr reason)
   \<and> all_scores (get_fallback_prediction reason)
       = Some (map (\<lambda>d. (d, if d = ''healthy'' then 0.5 else 0.2)) class_names)"
proof -
  have table: "all_scores (get_fallback_prediction reason)
       = Some (map (\<lambda>d. (d, if d = ''healthy'' then 0.5 else 0.2)) class_names)"
    by (simp add: fallback_all_scores) (simp add: class_names_def)
  have fields: "map_of (get_fallback_prediction reason) ''disease'' = Some (PStr ''healthy'')"
    "map_of (get_fallback_prediction reason) ''confidence'' = Some (PFloat 0.5)"
    "map_of (get_fallback_prediction reason) ''success'' = Some (PBool False)"
    "map_of (get_fallback_prediction reason) ''confidence_threshold_met'' = Some (PBool False)"
    "map_of (get_fallback_prediction reason) ''fallback_reason'' = Some (PStr reason)"
    by (simp_all add: get_fallback_prediction_def)
  from fields table show ?thesis by blast
qed

section \<open>Properties of the model resolver\<close>




lemma example_resolve:
  "resolve_model_path example_os example_cfg = Some ''/srv/backend/ml/model.h5''"
  by code_simp

lemma empty_resolve: "resolve_model_path empty_os example_cfg = None"
  by code_simp

lemma corrupt_resolve:
  "resolve_model_path corrupt_os example_cfg = Some ''/srv/backend/ml/model.h5''"
  by code_simp




section \<open>Properties of model loading\<close>

lemma load_model_loaded: "model_loaded self \<Longrightarrow> load_model os cfg self = (self, True)"
  by (simp add: load_model_def)

lemma load_model_try_flag:
  "load_model_try os cfg self = Inr (self', b) \<Longrightarrow>
     model_loaded self' = b \<and> (b \<longrightarrow> model self' \<noteq> None \<and> load_error self' = None)
     \<and> (\<not> b \<longrightarrow> load_error self' \<noteq> None \<and> model self' = model self)"
  by (auto simp: load_model_try_def split: option.splits if_splits sum.splits)

lemma load_model_flag:
  assumes "\<not> model_loaded self" and "load_model os cfg self = (self', b)"
  shows "model_loaded self' = b"
    and "b \<Longrightarrow> model self' \<noteq> None \<and> load_error self' = None"
    and "\<not> b \<Longrightarrow> load_error self' \<noteq> None"
proof -
  show "model_loaded self' = b"
  proof (cases "load_model_try os cfg self")
    case (Inl e)
    with assms show ?thesis by (auto simp: load_model_def)
  next
    case (Inr r)
    with assms have "load_model_try os cfg self = Inr (self', b)"
      by (simp add: load_model_def)
    then show ?thesis by (simp add: load_model_try_flag)
  qed
  show "model self' \<noteq> None \<and> load_error self' = None" if "b"
  proof (cases "load_model_try os cfg self")
    case (Inl e)
    with assms that show ?thesis by (auto simp: load_model_def)
  next
    case (Inr r)
    with assms have "load_model_try os cfg self = Inr (self', b)"
      by (simp add: load_model_def)
    with that show ?thesis using load_model_try_flag by blast
  qed
  show "load_error self' \<noteq> None" if "\<not> b"
  proof (cases "load_model_try os cfg self")
    case (Inl e)
    with assms show ?thesis by (auto simp: load_model_def)
  next
    case (Inr r)
    with assms have "load_model_try os cfg self = Inr (self', b)"
      by (simp add: load_model_def)
    with that show ?thesis using load_model_try_flag by blast
  qed
qed

lemma load_model_absent:
  assumes "\<not> model_loaded self" and "resolve_model_path os cfg = None"
  shows "load_model os cfg self =
     (self\<lparr>load_error := Some ''Model file not found in any expected location'',
           model_loaded := False\<rparr>, False)"
  using assms by (simp add: load_model_def load_model_try_def)

lemma load_model_raised:
  assumes "\<not> model_loaded self" and "load_model_try os cfg self = Inl e"
  shows "load_model os cfg self =
     (self\<lparr>load_error := Some (''Failed to load ML model: '' @ e),
           model := None, model_loaded := False\<rparr>, False)"
  using assms by (simp add: load_model_def)

lemma load_model_try_deserialize:
  assumes "resolve_model_path os cfg = Some p" and "path_exists os p"
    and "path_getsize os p = Inr n"
  shows "load_model_try os cfg self =
     (case keras_load_model os p of
        Inl e \<Rightarrow> Inl e
      | Inr m \<Rightarrow> Inr (self\<lparr>model := Some m, model_loaded := True, load_error := None\<rparr>, True))"
  using assms by (simp add: load_model_try_def)

text \<open>
  C8. \<^verbatim>\<open>load_model\<close> always returns a flag and never lets an exception through.
  When the model is already loaded it returns true with the object unchanged, whatever
  the file system is. Otherwise: when no path resolves it records the failure in
  \<open>load_error\<close> and returns false, and so does a second call on the resulting object;
  every exception raised in the \<^verbatim>\<open>try\<close> block, a failed deserialization among
  them, is recorded in \<open>load_error\<close> and gives false; a successful deserialization sets
  \<open>model_loaded\<close>, clears \<open>load_error\<close> and gives true. The flag returned agrees
  with \<open>model_loaded\<close> afterwards, and \<open>load_error\<close> is set exactly on failure.
\<close>

theorem load_model_never_raises:
  "(model_loaded self \<longrightarrow> load_model os cfg self = (self, True))
   \<and> (\<not> model_loaded self \<longrightarrow> resolve_model_path os cfg = None \<longrightarrow>
        load_model os cfg self =
          (self\<lparr>load_error := Some ''Model file not found in any expected location'',
                model_loaded := False\<rparr>, False)
      \<and> snd (load_model os cfg (fst (load_model os cfg self))) = False)
   \<and> (\<not> model_loaded self \<longrightarrow> load_model_try os cfg self = Inl e \<longrightarrow>
        load_model os cfg self =
          (self\<lparr>load_error := Some (''Failed to load ML model: '' @ e),
                model := None, model_loaded := False\<rparr>, False))
   \<and> (resolve_model_path os cfg = Some p \<longrightarrow> path_exists os p \<longrightarrow>
        path_getsize os p = Inr n \<longrightarrow> keras_load_model os p = Inl e \<longrightarrow>
        load_model_try os cfg self = Inl e)
   \<and> (\<not> model_loaded self \<longrightarrow> resolve_model_path os cfg = Some p \<longrightarrow> path_exists os p \<longrightarrow>
        path_getsize os p = Inr n \<longrightarrow> keras_load_model os p = Inr m \<longrightarrow>
        load_model os cfg self =
          (self\<lparr>model := Some m, model_loaded := True, load_error := None\<rparr>, True))
   \<and> (\<not> model_loaded self \<longrightarrow>
        (if snd (load_model os cfg self)
         then model_loaded (fst (load_model os cfg self))
              \<and> load_error (fst (load_model os cfg self)) = None
         else \<not> model_loaded (fst (load_model os cfg self))
              \<and> load_error (fst (load_model os cfg self)) \<noteq> None))"
proof (intro conjI impI)
  assume "model_loaded self"
  then show "load_model os cfg self = (self, True)" by (rule load_model_loaded)
next
  assume a: "\<not> model_loaded self" "resolve_model_path os cfg = None"
  then show "load_model os cfg self =
          (self\<lparr>load_error := Some ''Model file not found in any expected location'',
                model_loaded := False\<rparr>, False)"
    by (rule load_model_absent)
  then have "\<not> model_loaded (fst (load_model os cfg self))" by simp
  from load_model_absent [OF this a(2)]
  show "snd (load_model os cfg (fst (load_model os cfg self))) = False" by simp
next
  assume "\<not> model_loaded self" "load_model_try os cfg self = Inl e"
  then show "load_model os cfg self =
          (self\<lparr>load_error := Some (''Failed to load ML model: '' @ e),
                model := None, model_loaded := False\<rparr>, False)"
    by (rule load_model_raised)
next
  assume "resolve_model_path os cfg = Some p" "path_exists os p"
    "path_getsize os p = Inr n" "keras_load_model os p = Inl e"
  then show "load_model_try os cfg self = Inl e"
    by (simp add: load_model_try_deserialize)
next
  assume "\<not> model_loaded self" "resolve_model_path os cfg = Some p" "path_exists os p"
    "path_getsize os p = Inr n" "keras_load_model os p = Inr m"
  then show "load_model os cfg self =
          (self\<lparr>model := Some m, model_loaded := True, load_error := None\<rparr>, True)"
    by (simp add: load_model_def load_model_try_deserialize)
next
  assume a: "\<not> model_loaded self"
  obtain self' b where r: "load_model os cfg self = (self', b)" by (cases "load_model os cfg self")
  from load_model_flag [OF a r]
  show "if snd (load_model os cfg self)
         then model_loaded (fst (load_model os cfg self))
              \<and> load_error (fst (load_model os cfg self)) = None
         else \<not> model_loaded (fst (load_model os cfg self))
              \<and> load_error (fst (load_model os cfg self)) \<noteq> None"
    by (simp add: r)
qed

lemma example_load:
  "load_model example_os example_cfg init =
     (\<lparr>model = Some example_model, model_loaded = True, load_error = None\<rparr>, True)"
  by (simp add: load_model_def load_model_try_def example_resolve init_def)
     (simp add: example_os_def posix_env_def, code_simp)


lemma corrupt_os_facts:
  "path_exists corrupt_os ''/srv/backend/ml/model.h5''"
  "path_getsize corrupt_os ''/srv/backend/ml/model.h5'' = Inr (2 * 1024 * 1024)"
  "keras_load_model corrupt_os ''/srv/backend/ml/model.h5'' = Inl ''file signature not found''"
  by (simp_all add: corrupt_os_def posix_env_def) code_simp+

lemma example_os_facts:
  "path_exists example_os ''/srv/backend/ml/model.h5''"
  "path_getsize example_os ''/srv/backend/ml/model.h5'' = Inr (2 * 1024 * 1024)"
  "keras_load_model example_os ''/srv/backend/ml/model.h5'' = Inr example_model"
  by (simp_all add: example_os_def posix_env_def) code_simp+

theorem load_model_never_raises_witness:
  "load_model empty_os example_cfg loaded_classifier = (loaded_classifier, True)
   \<and> load_model empty_os example_cfg init =
        (init\<lparr>load_error := Some ''Model file not found in any expected location'',
              model_loaded := False\<rparr>, False)
   \<and> snd (load_model empty_os example_cfg (fst (load_model empty_os example_cfg init))) = False
   \<and> load_model corrupt_os example_cfg init =
        (init\<lparr>load_error := Some ''Failed to load ML model: file signature not found'',
              model := None, model_loaded := False\<rparr>, False)
   \<and> load_model example_os example_cfg init =
        (init\<lparr>model := Some example_model, model_loaded := True, load_error := None\<rparr>, True)"
proof -
  have fresh: "\<not> model_loaded init" by (simp add: init_def)
  have cached: "model_loaded loaded_classifier" by (simp add: loaded_classifier_def)
  note absent = load_model_never_raises [where self = init and os = empty_os
      and cfg = example_cfg]
  note corrupt = load_model_never_raises [where self = init and os = corrupt_os
      and cfg = example_cfg and p = "''/srv/backend/ml/model.h5''"
      and n = "2 * 1024 * 1024" and e = "''file signature not found''"]
  note good = load_model_never_raises [where self = init and os = example_os
      and cfg = example_cfg and p = "''/srv/backend/ml/model.h5''"
      and n = "2 * 1024 * 1024" and m = example_model]
  from cached load_model_never_raises [where self = loaded_classifier and os = empty_os
      and cfg = example_cfg]
  have 1: "load_model empty_os example_cfg loaded_classifier = (loaded_classifier, True)"
    by blast
  from absent fresh empty_resolve
  have 2: "load_model empty_os example_cfg init =
        (init\<lparr>load_error := Some ''Model file not found in any expected location'',
              model_loaded := False\<rparr>, False)"
    and 3: "snd (load_model empty_os example_cfg
                  (fst (load_model empty_os example_cfg init))) = False"
    by blast+
  from corrupt corrupt_resolve corrupt_os_facts
  have "load_model_try corrupt_os example_cfg init = Inl ''file signature not found''"
    by blast
  with corrupt fresh
  have 4: "load_model corrupt_os example_cfg init =
        (init\<lparr>load_error := Some (''Failed to load ML model: '' @ ''file signature not found''),
              model := None, model_loaded := False\<rparr>, False)"
    by blast
  from good fresh example_resolve example_os_facts
  have 5: "load_model example_os example_cfg init =
        (init\<lparr>model := Some example_model, model_loaded := True, load_error := None\<rparr>, True)"
    by blast
  from 1 2 3 4 5 show ?thesis by simp
qed

section \<open>Properties of the preprocessor\<close>

lemma has_shape3_map:
  "has_shape3 shape (map (map (map f)) arr) = has_shape3 shape arr"
  by (cases shape) (simp add: has_shape3_def list_all_iff)




lemma preprocess_image_returns:
  assumes "100 \<le> length image_data"
    and "open_checked pil image_data = Inr img"
    and "to_rgb pil img = Inr rgb"
    and "Image_resize pil rgb target_size = Inr resized"
    and "has_shape3 (224, 224, 3) (img_data resized)"
  shows "preprocess_image pil image_data
           = Some [map (map (map (\<lambda>v. v / 255))) (np_array resized)]"
proof -
  from assms(1) have "image_data \<noteq> []" "\<not> length image_data < 100" by auto
  moreover from assms(5) have "has_shape3 (224, 224, 3) (np_array resized)"
    by (simp add: np_array_def has_shape3_map)
  ultimately show ?thesis
    using assms(2-4) by (simp add: preprocess_image_def)
qed


lemma first_pixel_uniform:
  assumes "0 < w" and "0 < h"
  shows "first_pixel (uniform_image fmt mode w h px) = px"
proof -
  from assms obtain w' h' where "w = Suc w'" "h = Suc h'"
    by (metis gr0_implies_Suc)
  then show ?thesis by (simp add: first_pixel_def uniform_image_def)
qed

lemma example_open:
  "open_checked example_pil jpeg_bytes
     = Inr (uniform_image (Some ''JPEG'') ''RGB'' 300 300 [200, 120, 40])"
  by (simp add: open_checked_def example_pil_def jpeg_bytes_def)

lemma example_to_rgb:
  "to_rgb example_pil (uniform_image (Some ''JPEG'') ''RGB'' 300 300 [200, 120, 40])
     = Inr (uniform_image (Some ''JPEG'') ''RGB'' 300 300 [200, 120, 40])"
  by (simp add: to_rgb_def uniform_image_def)

lemma example_resize:
  "Image_resize example_pil (uniform_image (Some ''JPEG'') ''RGB'' 300 300 [200, 120, 40])
      target_size
     = Inr (uniform_image None ''RGB'' 224 224 [200, 120, 40])"
  by (simp add: example_pil_def target_size_def first_pixel_uniform)
     (simp add: uniform_image_def)


section \<open>Properties of the predictor\<close>

lemma sorted_Max_last:
  fixes ys :: "real list"
  assumes "sorted ys" and "ys \<noteq> []"
  shows "Max (set ys) = last ys"
proof (rule Max_eqI)
  show "finite (set ys)" by simp
  show "last ys \<in> set ys" using assms(2) by simp
  fix y assume y: "y \<in> set ys"
  have split: "ys = butlast ys @ [last ys]" using assms(2) by simp
  with assms(1) have "sorted (butlast ys @ [last ys])" by simp
  then have "\<forall>a \<in> set (butlast ys). a \<le> last ys" by (simp add: sorted_append)
  moreover from y split have "y \<in> set (butlast ys) \<or> y = last ys"
    by (metis Un_iff empty_iff empty_set insert_iff list.simps(15) set_append)
  ultimately show "y \<le> last ys" by auto
qed

lemma sort_top:
  fixes xs :: "real list"
  assumes "xs \<noteq> []"
  shows "rev (sort xs) ! 0 = Max (set xs)"
proof -
  have ne: "sort xs \<noteq> []" using assms by (metis length_0_conv length_sort)
  with assms have "rev (sort xs) ! 0 = last (sort xs)"
    by (simp add: rev_nth last_conv_nth)
  also have "\<dots> = Max (set (sort xs))"
    using sorted_Max_last [OF sorted_sort ne] by simp
  finally show ?thesis by simp
qed

lemma sort_second:
  fixes xs :: "real list"
  assumes "2 \<le> length xs"
  shows "rev (sort xs) ! 1 = Max (set (remove1 (Max (set xs)) xs))"
proof -
  define ys where "ys = sort xs"
  have len: "length ys = length xs" and srt: "sorted ys" and ms: "mset ys = mset xs"
    by (simp_all add: ys_def)
  from assms len have ne: "ys \<noteq> []" by auto
  define m where "m = last ys"
  have m: "m = Max (set xs)"
    using sorted_Max_last [OF srt ne] ms by (metis m_def mset_eq_setD)
  have split: "ys = butlast ys @ [m]" using ne by (simp add: m_def)
  have "mset (remove1 m xs) = mset xs - {#m#}" by simp
  also have "\<dots> = mset ys - {#m#}" by (simp add: ms)
  also have "\<dots> = mset (butlast ys)"
    by (subst split) simp
  finally have "set (remove1 m xs) = set (butlast ys)" by (rule mset_eq_setD)
  moreover have bne: "butlast ys \<noteq> []" using assms len by (cases ys rule: rev_cases) auto
  moreover have "sorted (butlast ys)" using srt by (rule sorted_butlast)
  ultimately have "Max (set (remove1 m xs)) = last (butlast ys)"
    using sorted_Max_last by metis
  also have "\<dots> = rev ys ! 1"
    using assms len bne by (simp add: rev_nth last_conv_nth nth_butlast)
  finally show ?thesis by (simp add: m ys_def)
qed

lemma decide_threshold_iff:
  assumes "2 \<le> length arr"
  shows "decide_threshold predictions cfg confidence arr
     \<longleftrightarrow> CONFIDENCE_THRESHOLD cfg \<le> confidence
         \<and> array_ge_float predictions
               (array_subtract predictions (top_score arr) (second_score arr))
               (CONFIDENCE_MARGIN cfg)"
proof -
  from assms have "arr \<noteq> []" by auto
  then have "rev (sort arr) ! 0 = top_score arr"
    by (simp add: sort_top top_score_def)
  moreover from assms have "rev (sort arr) ! 1 = second_score arr"
    by (simp add: sort_second second_score_def del: One_nat_def)
  ultimately show ?thesis
    using assms by (auto simp: decide_threshold_def Let_def simp del: One_nat_def)
qed

lemma upt_class_names: "[0 ..< length class_names] = [0, 1, 2, 3, 4]"
  by code_simp

lemma all_scores_prediction_result:
  assumes "length arr = length class_names"
  shows "all_scores (prediction_result k info c m arr) = Some (zip class_names arr)"
proof -
  from assms obtain a0 a1 a2 a3 a4 where "arr = [a0, a1, a2, a3, a4]"
    by (auto simp: class_names_def length_Suc_conv eval_nat_numeral)
  then show ?thesis
    by (simp add: all_scores_def prediction_result_def upt_class_names)
       (simp add: class_names_def)
qed



lemma fallback_fields:
  "map_of (get_fallback_prediction reason) ''success'' = Some (PBool False)"
  "map_of (get_fallback_prediction reason) ''disease'' = Some (PStr ''healthy'')"
  by (simp_all add: get_fallback_prediction_def)

lemma prediction_result_fields:
  "map_of (prediction_result k info c m arr) ''success'' = Some (PBool True)"
  "map_of (prediction_result k info c m arr) ''disease'' = Some (PStr k)"
  "map_of (prediction_result k info c m arr) ''confidence'' = Some (PFloat c)"
  "map_of (prediction_result k info c m arr) ''confidence_threshold_met'' = Some (PBool m)"
  by (simp_all add: prediction_result_def)

lemma predict_try_cases:
  assumes "predict_try pil cfg self image_data = (res, flag)"
  shows "(\<exists>reason. res = get_fallback_prediction reason \<and> \<not> flag)
       \<or> (\<exists>arr idx raw info m batch predictions rest.
            model self = Some m \<and> preprocess_image pil image_data = Some batch
          \<and> model_predict m batch = Inr (Some predictions)
          \<and> array_rows predictions = arr # rest
          \<and> length arr = length class_names \<and> idx < length class_names
          \<and> np_max arr = Inr raw
          \<and> flag = decide_threshold predictions cfg (clamp_confidence raw) arr
          \<and> res = prediction_result (class_names ! idx) info (clamp_confidence raw) flag arr)"
proof -
  let ?fallback = "\<exists>reason. res = get_fallback_prediction reason \<and> \<not> flag"
  show ?thesis
  proof (cases "preprocess_image pil image_data")
    case None
    with assms have ?fallback by (auto simp: predict_try_def)
    then show ?thesis by blast
  next
    case (Some processed_image)
    show ?thesis
    proof (cases "case model self of
                   None \<Rightarrow> Inl ''NoneType object has no attribute predict''
                 | Some m \<Rightarrow> model_predict m processed_image")
      case (Inl predict_error)
      with assms Some have ?fallback by (auto simp: predict_try_def)
      then show ?thesis by blast
    next
      case (Inr predictions)
      then obtain m where m: "model self = Some m"
        and out: "model_predict m processed_image = Inr predictions"
        by (cases "model self") auto
      show ?thesis
      proof (cases predictions)
        case None
        with assms Some Inr have ?fallback by (auto simp: predict_try_def)
        then show ?thesis by blast
      next
        case scores: (Some scores)
        show ?thesis
        proof (cases "array_rows scores")
          case Nil
          with assms Some Inr scores have ?fallback by (auto simp: predict_try_def)
          then show ?thesis by blast
        next
          case (Cons arr rest)
          note head = Some Inr scores Cons
          show ?thesis
          proof (cases "length arr = length class_names")
            case False
            with assms head have ?fallback by (auto simp: predict_try_def)
            then show ?thesis by blast
          next
            case len: True
            show ?thesis
            proof (cases "np_argmax arr")
              case (Inl e)
              with assms head len have ?fallback by (auto simp: predict_try_def)
              then show ?thesis by blast
            next
              case idx: (Inr idx)
              show ?thesis
              proof (cases "np_max arr")
                case (Inl e)
                with assms head len idx have ?fallback by (auto simp: predict_try_def)
                then show ?thesis by blast
              next
                case raw: (Inr raw)
                show ?thesis
                proof (cases "idx < length class_names")
                  case False
                  with assms head len idx raw have ?fallback
                    by (auto simp: predict_try_def Let_def)
                  then show ?thesis by blast
                next
                  case True
                  define info where "info =
                    (case map_of disease_info (class_names ! idx) of
                       Some i \<Rightarrow> i
                     | None \<Rightarrow> [(''name'', PStr (default_name (class_names ! idx))),
                                (''description'', PStr ''Unknown disease'')])"
                  have "predict_try pil cfg self image_data =
                      (prediction_result (class_names ! idx) info (clamp_confidence raw)
                         (decide_threshold scores cfg (clamp_confidence raw) arr) arr,
                       decide_threshold scores cfg (clamp_confidence raw) arr)"
                    using head len idx raw True
                    by (simp add: predict_try_def Let_def clamp_confidence_def info_def)
                  with assms have
                    "flag = decide_threshold scores cfg (clamp_confidence raw) arr"
                    "res = prediction_result (class_names ! idx) info (clamp_confidence raw)
                             flag arr"
                    by auto
                  moreover from out scores
                  have "model_predict m processed_image = Inr (Some scores)" by simp
                  ultimately show ?thesis using len True raw m Some Cons by blast
                qed
              qed
            qed
          qed
        qed
      qed
    qed
  qed
qed

lemma predict_cases:
  assumes "predict os pil cfg self image_data = (self', res, flag)"
  shows "(image_data = [] \<and> self' = self \<and> \<not> flag
          \<and> res = [(''disease'', PStr ''error''), (''confidence'', PFloat 0.0),
                   (''error'', PStr ''No image data provided''), (''success'', PBool False)])
       \<or> (image_data \<noteq> [] \<and> ensure_model os cfg self = (self', False) \<and> \<not> flag
          \<and> res = get_fallback_prediction ''Model not available'')
       \<or> (image_data \<noteq> [] \<and> ensure_model os cfg self = (self', True) \<and> \<not> flag
          \<and> \<not> is_valid (validate_image_data pil image_data)
          \<and> res = [(''disease'', PStr ''error''), (''confidence'', PFloat 0.0),
                   (''error'', PStr (''Invalid image: ''
                                     @ error_of (validate_image_data pil image_data))),
                   (''success'', PBool False),
                   (''validation_info'', PDict (validate_image_data pil image_data))])
       \<or> (image_data \<noteq> [] \<and> ensure_model os cfg self = (self', True)
          \<and> is_valid (validate_image_data pil image_data)
          \<and> predict_try pil cfg self' image_data = (res, flag))"
proof (cases "image_data = []")
  case True
  with assms show ?thesis by (simp add: predict_def)
next
  case False
  obtain s ok where e: "ensure_model os cfg self = (s, ok)"
    by (cases "ensure_model os cfg self")
  show ?thesis
  proof (cases ok)
    case False
    with assms e \<open>image_data \<noteq> []\<close> show ?thesis by (auto simp: predict_def)
  next
    case True
    with assms e \<open>image_data \<noteq> []\<close> show ?thesis
      by (cases "is_valid (validate_image_data pil image_data)")
         (auto simp: predict_def Let_def)
  qed
qed



section \<open>Properties of single-precision rounding\<close>

lemma ulp_search_steps:
  assumes "k \<le> fuel" and "0 < u"
    and "k = 0 \<or> u * 2 ^ (k - 1) * 2 ^ 24 \<le> a"
    and "a < u * 2 ^ k * 2 ^ 24"
  shows "ulp_search fuel u a = u * 2 ^ k"
  using assms
proof (induction k arbitrary: fuel u)
  case 0
  then show ?case by (cases fuel) simp_all
next
  case (Suc k)
  from Suc.prems(1) obtain fuel' where fuel: "fuel = Suc fuel'" and le: "k \<le> fuel'"
    by (cases fuel) auto
  from Suc.prems(3) have low: "u * 2 ^ k * 2 ^ 24 \<le> a" by simp
  have "u * 2 ^ 24 \<le> u * 2 ^ k * 2 ^ 24"
    using Suc.prems(2) by simp
  with low have skip: "\<not> a < u * 2 ^ 24" by simp
  have "ulp_search fuel' (2 * u) a = (2 * u) * 2 ^ k"
  proof (rule Suc.IH [OF le])
    show "0 < 2 * u" using Suc.prems(2) by simp
    show "k = 0 \<or> 2 * u * 2 ^ (k - 1) * 2 ^ 24 \<le> a"
    proof (cases k)
      case 0
      then show ?thesis by simp
    next
      case (Suc j)
      with low show ?thesis by simp
    qed
    show "a < 2 * u * 2 ^ k * 2 ^ 24" using Suc.prems(4) by simp
  qed
  with skip show ?case by (simp add: fuel)
qed

lemma float32_ulp_eq:
  assumes "k \<le> 253"
    and "k = 0 \<or> 2 ^ (k - 1) * 2 ^ 24 \<le> \<bar>x\<bar> * 2 ^ 149"
    and "\<bar>x\<bar> * 2 ^ 149 < 2 ^ k * 2 ^ 24"
  shows "float32_ulp x = 2 ^ k / 2 ^ 149"
proof -
  have "ulp_search 253 (1 / 2 ^ 149) \<bar>x\<bar> = (1 / 2 ^ 149) * 2 ^ k"
  proof (rule ulp_search_steps [OF assms(1)])
    show "(0::real) < 1 / 2 ^ 149" by simp
    show "k = 0 \<or> 1 / 2 ^ 149 * 2 ^ (k - 1) * 2 ^ 24 \<le> \<bar>x\<bar>"
      using assms(2) by (auto simp: field_simps)
    show "\<bar>x\<bar> < 1 / 2 ^ 149 * 2 ^ k * 2 ^ 24"
      using assms(3) by (simp add: field_simps)
  qed
  then show ?thesis by (simp add: float32_ulp_def)
qed

lemma float32_round_eq:
  assumes "float32_ulp x = u" and "round_half_even (x / u) = n"
  shows "float32_round x = of_int n * u"
  using assms by (simp add: float32_round_def)

section \<open>The predictor on the example inputs\<close>

lemma loaded_available: "ensure_model os cfg loaded_classifier = (loaded_classifier, True)"
  by (simp add: ensure_model_def is_model_available_def loaded_classifier_def)

lemma example_preprocess:
  "preprocess_image example_pil jpeg_bytes
     = Some [map (map (map (\<lambda>v. v / 255)))
               (np_array (uniform_image None ''RGB'' 224 224 [200, 120, 40]))]"
proof (rule preprocess_image_returns)
  show "100 \<le> length jpeg_bytes" by (simp add: jpeg_bytes_def)
  show "open_checked example_pil jpeg_bytes
     = Inr (uniform_image (Some ''JPEG'') ''RGB'' 300 300 [200, 120, 40])"
    by (rule example_open)
  show "to_rgb example_pil (uniform_image (Some ''JPEG'') ''RGB'' 300 300 [200, 120, 40])
     = Inr (uniform_image (Some ''JPEG'') ''RGB'' 300 300 [200, 120, 40])"
    by (rule example_to_rgb)
  show "Image_resize example_pil
      (uniform_image (Some ''JPEG'') ''RGB'' 300 300 [200, 120, 40]) target_size
     = Inr (uniform_image None ''RGB'' 224 224 [200, 120, 40])"
    by (rule example_resize)
  show "has_shape3 (224, 224, 3)
      (img_data (uniform_image None ''RGB'' 224 224 [200, 120, 40]))"
    by (simp add: has_shape3_def uniform_image_def list_all_iff)
qed

lemma example_float32_sub: "float32_sub (1 / 2) (1 / 8) = 3 / 8"
proof -
  have ulp: "float32_ulp (1 / 2 - 1 / 8) = 1 / 2 ^ 25"
    using float32_ulp_eq [of 124 "1 / 2 - 1 / 8"] by simp
  have "round_half_even ((1 / 2 - 1 / 8) / (1 / 2 ^ 25)) = 12582912"
    by (simp add: round_half_even_def)
  from float32_round_eq [OF ulp this] show ?thesis by (simp add: float32_sub_def)
qed


lemma example_ranking:
  "top_score example_scores = 1 / 2" "second_score example_scores = 1 / 8"
  by (simp_all add: top_score_def second_score_def example_scores_def)


lemma example_decision:
  "length example_scores = length class_names"
  "np_argmax example_scores = Inr 2"
  "np_max example_scores = Inr (1 / 2)"
  by (simp_all add: np_argmax_def np_max_def example_scores_def class_names_def)


lemma example_meets:
  "decide_threshold (float32_array [example_scores]) example_cfg (1 / 2) example_scores"
proof -
  have "2 \<le> length example_scores" by (simp add: example_scores_def)
  from decide_threshold_iff [OF this] show ?thesis
    by (simp add: example_ranking float32_array_def example_float32_sub example_cfg_def)
qed


lemma predict_try_scored:
  assumes "preprocess_image pil image_data = Some batch"
    and "model self = Some m"
    and "model_predict m batch = Inr (Some (float32_array [scores]))"
    and "length scores = length class_names"
    and "np_argmax scores = Inr idx" and "np_max scores = Inr raw"
    and "class_names ! idx = key" and "idx < length class_names"
    and "0 \<le> raw" and "raw \<le> 1"
  shows "predict_try pil cfg self image_data =
     (prediction_result key (info_of key) raw
        (decide_threshold (float32_array [scores]) cfg raw scores) scores,
      decide_threshold (float32_array [scores]) cfg raw scores)"
proof -
  from assms(7,8) have "key \<in> set class_names" by auto
  then have "map_of disease_info key = Some (info_of key)"
    using class_names_info [of key] by (auto simp: info_of_def)
  moreover have "array_rows (float32_array [scores]) = [scores]"
    by (simp add: float32_array_def)
  ultimately show ?thesis
    using assms by (simp add: predict_try_def Let_def)
qed

lemma example_predict_try:
  "predict_try example_pil example_cfg loaded_classifier jpeg_bytes =
     (prediction_result ''healthy'' (info_of ''healthy'') (1 / 2) True example_scores, True)"
proof -
  have "predict_try example_pil example_cfg loaded_classifier jpeg_bytes =
     (prediction_result ''healthy'' (info_of ''healthy'') (1 / 2)
        (decide_threshold (float32_array [example_scores]) example_cfg (1 / 2)
           example_scores) example_scores,
      decide_threshold (float32_array [example_scores]) example_cfg (1 / 2) example_scores)"
  proof (rule predict_try_scored [OF example_preprocess _ _ example_decision])
    show "model loaded_classifier = Some example_model"
      by (simp add: loaded_classifier_def)
    show "model_predict example_model t = Inr (Some (float32_array [example_scores]))" for t
      by (simp add: example_model_def)
    show "class_names ! 2 = ''healthy''" "2 < length class_names"
      by (simp_all add: class_names_def)
  qed simp_all
  with example_meets show ?thesis by simp
qed

lemma example_validate:
  "validate_image_data example_pil jpeg_bytes =
     [(''valid'', PBool True), (''format'', PStr ''JPEG''), (''mode'', PStr ''RGB''),
      (''size'', PTuple [PInt 300, PInt 300]), (''file_size'', PInt 202)]"
  by (simp add: validate_image_data_def example_pil_def jpeg_bytes_def uniform_image_def
        format_value_def)

lemma jpeg_valid:
  "jpeg_bytes \<noteq> []" "is_valid (validate_image_data example_pil jpeg_bytes)"
  by (simp add: jpeg_bytes_def) (simp add: example_validate is_valid_def getitem_def)

lemma example_predict:
  "predict example_os example_pil example_cfg loaded_classifier jpeg_bytes =
     (loaded_classifier,
      prediction_result ''healthy'' (info_of ''healthy'') (1 / 2) True example_scores, True)"
  using jpeg_valid by (simp add: predict_def loaded_available example_predict_try)






section \<open>Error branches of the predictor\<close>

lemma validate_has_valid:
  "\<exists>b. map_of (validate_image_data pil image_data) ''valid'' = Some (PBool b)"
  by (auto simp: validate_image_data_def Let_def split: sum.splits)

lemma validate_open_fails:
  assumes "image_data \<noteq> []" and "Image_open pil image_data = Inl e"
  shows "validate_image_data pil image_data =
     [(''valid'', PBool False),
      (''error'', PStr (''Invalid image data: '' @ e)),
      (''size'', PInt (int (length image_data)))]"
  using assms by (simp add: validate_image_data_def)

lemma validate_too_large:
  assumes "Image_open pil image_data = Inr img" and "50 * 1024 * 1024 < length image_data"
  shows "\<not> is_valid (validate_image_data pil image_data)"
    and "error_of (validate_image_data pil image_data) = ''Image too large (>50MB)''"
proof -
  from assms(2) have "image_data \<noteq> []" by auto
  with assms show "\<not> is_valid (validate_image_data pil image_data)"
    and "error_of (validate_image_data pil image_data) = ''Image too large (>50MB)''"
    by (simp_all add: validate_image_data_def is_valid_def error_of_def getitem_def Let_def)
qed

lemma validate_too_small:
  assumes "image_data \<noteq> []" and "Image_open pil image_data = Inr img"
    and "\<not> 50 * 1024 * 1024 < length image_data"
    and "fst (img_size img) < 50 \<or> snd (img_size img) < 50"
  shows "\<not> is_valid (validate_image_data pil image_data)"
    and "error_of (validate_image_data pil image_data) = ''Image too small (<50x50 pixels)''"
  using assms
  by (simp_all add: validate_image_data_def is_valid_def error_of_def getitem_def Let_def)

lemma validate_accepts:
  assumes "image_data \<noteq> []" and "Image_open pil image_data = Inr img"
    and "\<not> 50 * 1024 * 1024 < length image_data"
    and "50 \<le> fst (img_size img)" and "50 \<le> snd (img_size img)"
  shows "is_valid (validate_image_data pil image_data)"
  using assms
  by (simp add: validate_image_data_def is_valid_def getitem_def Let_def)

lemma predict_invalid:
  assumes "image_data \<noteq> []" and "ensure_model os cfg self = (self', True)"
    and "\<not> is_valid (validate_image_data pil image_data)"
  shows "predict os pil cfg self image_data =
     (self',
      [(''disease'', PStr ''error''), (''confidence'', PFloat 0.0),
       (''error'', PStr (''Invalid image: '' @ error_of (validate_image_data pil image_data))),
       (''success'', PBool False),
       (''validation_info'', PDict (validate_image_data pil image_data))],
      False)"
  using assms by (simp add: predict_def Let_def)

lemma predict_valid:
  assumes "image_data \<noteq> []" and "ensure_model os cfg self = (self', True)"
    and "is_valid (validate_image_data pil image_data)"
  shows "predict os pil cfg self image_data = (self', predict_try pil cfg self' image_data)"
  using assms by (simp add: predict_def Let_def)

lemma predict_validates:
  assumes "image_data \<noteq> []" and "ensure_model os cfg self = (self', True)"
  shows
   "(Image_open pil image_data = Inl e \<longrightarrow>
       predict os pil cfg self image_data =
         (self',
          [(''disease'', PStr ''error''), (''confidence'', PFloat 0.0),
           (''error'', PStr (''Invalid image: '' @ ''Invalid image data: '' @ e)),
           (''success'', PBool False),
           (''validation_info'', PDict (validate_image_data pil image_data))],
          False))
    \<and> (Image_open pil image_data = Inr img \<and> 50 * 1024 * 1024 < length image_data \<longrightarrow>
       predict os pil cfg self image_data =
         (self',
          [(''disease'', PStr ''error''), (''confidence'', PFloat 0.0),
           (''error'', PStr (''Invalid image: '' @ ''Image too large (>50MB)'')),
           (''success'', PBool False),
           (''validation_info'', PDict (validate_image_data pil image_data))],
          False))
    \<and> (Image_open pil image_data = Inr img \<and> \<not> 50 * 1024 * 1024 < length image_data
        \<and> (fst (img_size img) < 50 \<or> snd (img_size img) < 50) \<longrightarrow>
       predict os pil cfg self image_data =
         (self',
          [(''disease'', PStr ''error''), (''confidence'', PFloat 0.0),
           (''error'', PStr (''Invalid image: '' @ ''Image too small (<50x50 pixels)'')),
           (''success'', PBool False),
           (''validation_info'', PDict (validate_image_data pil image_data))],
          False))
    \<and> (Image_open pil image_data = Inr img \<and> \<not> 50 * 1024 * 1024 < length image_data
        \<and> 50 \<le> fst (img_size img) \<and> 50 \<le> snd (img_size img) \<longrightarrow>
       is_valid (validate_image_data pil image_data)
       \<and> predict os pil cfg self image_data
           = (self', predict_try pil cfg self' image_data))"
proof (intro conjI impI)
  assume o: "Image_open pil image_data = Inl e"
  note v = validate_open_fails [OF assms(1) o]
  have "\<not> is_valid (validate_image_data pil image_data)"
    and "error_of (validate_image_data pil image_data) = ''Invalid image data: '' @ e"
    by (simp_all add: v is_valid_def error_of_def getitem_def)
  with predict_invalid [OF assms, of pil]
  show "predict os pil cfg self image_data =
         (self',
          [(''disease'', PStr ''error''), (''confidence'', PFloat 0.0),
           (''error'', PStr (''Invalid image: '' @ ''Invalid image data: '' @ e)),
           (''success'', PBool False),
           (''validation_info'', PDict (validate_image_data pil image_data))],
          False)"
    by simp
next
  assume "Image_open pil image_data = Inr img \<and> 50 * 1024 * 1024 < length image_data"
  then have "\<not> is_valid (validate_image_data pil image_data)"
    and "error_of (validate_image_data pil image_data) = ''Image too large (>50MB)''"
    using validate_too_large by blast+
  with predict_invalid [OF assms, of pil]
  show "predict os pil cfg self image_data =
         (self',
          [(''disease'', PStr ''error''), (''confidence'', PFloat 0.0),
           (''error'', PStr (''Invalid image: '' @ ''Image too large (>50MB)'')),
           (''success'', PBool False),
           (''validation_info'', PDict (validate_image_data pil image_data))],
          False)"
    by simp
next
  assume "Image_open pil image_data = Inr img \<and> \<not> 50 * 1024 * 1024 < length image_data
        \<and> (fst (img_size img) < 50 \<or> snd (img_size img) < 50)"
  then have "\<not> is_valid (validate_image_data pil image_data)"
    and "error_of (validate_image_data pil image_data) = ''Image too small (<50x50 pixels)''"
    using validate_too_small [OF assms(1)] by blast+
  with predict_invalid [OF assms, of pil]
  show "predict os pil cfg self image_data =
         (self',
          [(''disease'', PStr ''error''), (''confidence'', PFloat 0.0),
           (''error'', PStr (''Invalid image: '' @ ''Image too small (<50x50 pixels)'')),
           (''success'', PBool False),
           (''validation_info'', PDict (validate_image_data pil image_data))],
          False)"
    by simp
next
  assume a: "Image_open pil image_data = Inr img \<and> \<not> 50 * 1024 * 1024 < length image_data
        \<and> 50 \<le> fst (img_size img) \<and> 50 \<le> snd (img_size img)"
  then show v: "is_valid (validate_image_data pil image_data)"
    using validate_accepts [OF assms(1)] by blast
  show "predict os pil cfg self image_data = (self', predict_try pil cfg self' image_data)"
    using predict_valid [OF assms v] .
qed

lemma predict_unavailable:
  assumes "image_data \<noteq> []" and "ensure_model os cfg self = (self', False)"
  shows "predict os pil cfg self image_data =
     (self', get_fallback_prediction ''Model not available'', False)"
  using assms by (simp add: predict_def)

lemma validate_warning:
  assumes "image_data \<noteq> []" and "Image_open pil image_data = Inr img"
    and "\<not> 50 * 1024 * 1024 < length image_data"
    and "50 \<le> fst (img_size img)" and "50 \<le> snd (img_size img)"
  shows "map_of (validate_image_data pil image_data) ''warning'' =
     (if img_format img \<in> set (map Some [''JPEG'', ''JPG'', ''PNG'', ''BMP'', ''TIFF'']) then None
      else Some (PStr (''Unusual image format: '' @ str_format (img_format img))))"
  using assms by (simp add: validate_image_data_def Let_def)

text \<open>
  C7 (as amended). \<^verbatim>\<open>predict\<close> on non-empty image bytes first makes sure of the
  model: when the model cannot be loaded it returns the fallback result
  \<open>Model not available\<close> before any validation. Once the model is available (already
  loaded, or loaded by this call), it validates the bytes before any preprocessing:
  bytes that do not open as an image, bytes beyond 50MB, and images narrower or lower
  than 50 pixels give the error result with \<open>success\<close> false and a message naming the
  failure, and that result depends neither on the preprocessor nor on the model. An
  image within those limits is valid whatever its format, and \<^verbatim>\<open>predict\<close> goes on
  to preprocessing and inference: a format outside JPEG, JPG, PNG, BMP and TIFF only adds
  the warning \<open>Unusual image format\<close> to the validation result, and a format among
  them adds none.
\<close>

theorem predict_rejects_invalid:
  assumes "image_data \<noteq> []"
  shows
   "(ensure_model os cfg self = (self', False) \<longrightarrow>
       predict os pil cfg self image_data =
         (self', get_fallback_prediction ''Model not available'', False))
    \<and> (ensure_model os cfg self = (self', True) \<longrightarrow>
       (Image_open pil image_data = Inl e \<longrightarrow>
          predict os pil cfg self image_data =
            (self',
             [(''disease'', PStr ''error''), (''confidence'', PFloat 0.0),
              (''error'', PStr (''Invalid image: '' @ ''Invalid image data: '' @ e)),
              (''success'', PBool False),
              (''validation_info'', PDict (validate_image_data pil image_data))],
             False))
       \<and> (Image_open pil image_data = Inr img \<and> 50 * 1024 * 1024 < length image_data \<longrightarrow>
          predict os pil cfg self image_data =
            (self',
             [(''disease'', PStr ''error''), (''confidence'', PFloat 0.0),
              (''error'', PStr (''Invalid image: '' @ ''Image too large (>50MB)'')),
              (''success'', PBool False),
              (''validation_info'', PDict (validate_image_data pil image_data))],
             False))
       \<and> (Image_open pil image_data = Inr img \<and> \<not> 50 * 1024 * 1024 < length image_data
           \<and> (fst (img_size img) < 50 \<or> snd (img_size img) < 50) \<longrightarrow>
          predict os pil cfg self image_data =
            (self',
             [(''disease'', PStr ''error''), (''confidence'', PFloat 0.0),
              (''error'', PStr (''Invalid image: '' @ ''Image too small (<50x50 pixels)'')),
              (''success'', PBool False),
              (''validation_info'', PDict (validate_image_data pil image_data))],
             False))
       \<and> (Image_open pil image_data = Inr img \<and> \<not> 50 * 1024 * 1024 < length image_data
           \<and> 50 \<le> fst (img_size img) \<and> 50 \<le> snd (img_size img) \<longrightarrow>
          is_valid (validate_image_data pil image_data)
          \<and> map_of (validate_image_data pil image_data) ''warning'' =
              (if img_format img \<in> set (map Some [''JPEG'', ''JPG'', ''PNG'', ''BMP'', ''TIFF'']) then None
               else Some (PStr (''Unusual image format: '' @ str_format (img_format img))))
          \<and> predict os pil cfg self image_data
              = (self', predict_try pil cfg self' image_data)))"
proof -
  have unavailable: "ensure_model os cfg self = (self', False) \<longrightarrow>
       predict os pil cfg self image_data =
         (self', get_fallback_prediction ''Model not available'', False)"
    using predict_unavailable [OF assms] by blast
  have warning: "Image_open pil image_data = Inr img
      \<and> \<not> 50 * 1024 * 1024 < length image_data
      \<and> 50 \<le> fst (img_size img) \<and> 50 \<le> snd (img_size img) \<longrightarrow>
      map_of (validate_image_data pil image_data) ''warning'' =
         (if img_format img \<in> set (map Some [''JPEG'', ''JPG'', ''PNG'', ''BMP'', ''TIFF'']) then None
          else Some (PStr (''Unusual image format: '' @ str_format (img_format img))))"
    using validate_warning [OF assms] by blast
  show ?thesis
  proof (rule conjI [OF unavailable], rule impI)
    assume "ensure_model os cfg self = (self', True)"
    note checked = predict_validates [OF assms this, where pil = pil and e = e and img = img]
    from checked warning
    show "(Image_open pil image_data = Inl e \<longrightarrow>
          predict os pil cfg self image_data =
            (self',
             [(''disease'', PStr ''error''), (''confidence'', PFloat 0.0),
              (''error'', PStr (''Invalid image: '' @ ''Invalid image data: '' @ e)),
              (''success'', PBool False),
              (''validation_info'', PDict (validate_image_data pil image_data))],
             False))
       \<and> (Image_open pil image_data = Inr img \<and> 50 * 1024 * 1024 < length image_data \<longrightarrow>
          predict os pil cfg self image_data =
            (self',
             [(''disease'', PStr ''error''), (''confidence'', PFloat 0.0),
              (''error'', PStr (''Invalid image: '' @ ''Image too large (>50MB)'')),
              (''success'', PBool False),
              (''validation_info'', PDict (validate_image_data pil image_data))],
             False))
       \<and> (Image_open pil image_data = Inr img \<and> \<not> 50 * 1024 * 1024 < length image_data
           \<and> (fst (img_size img) < 50 \<or> snd (img_size img) < 50) \<longrightarrow>
          predict os pil cfg self image_data =
            (self',
             [(''disease'', PStr ''error''), (''confidence'', PFloat 0.0),
              (''error'', PStr (''Invalid image: '' @ ''Image too small (<50x50 pixels)'')),
              (''success'', PBool False),
              (''validation_info'', PDict (validate_image_data pil image_data))],
             False))
       \<and> (Image_open pil image_data = Inr img \<and> \<not> 50 * 1024 * 1024 < length image_data
           \<and> 50 \<le> fst (img_size img) \<and> 50 \<le> snd (img_size img) \<longrightarrow>
          is_valid (validate_image_data pil image_data)
          \<and> map_of (validate_image_data pil image_data) ''warning'' =
              (if img_format img \<in> set (map Some [''JPEG'', ''JPG'', ''PNG'', ''BMP'', ''TIFF'']) then None
               else Some (PStr (''Unusual image format: '' @ str_format (img_format img))))
          \<and> predict os pil cfg self image_data
              = (self', predict_try pil cfg self' image_data))"
      by blast
  qed
qed

lemma empty_os_load:
  "ensure_model empty_os example_cfg init =
     (init\<lparr>load_error := Some ''Model file not found in any expected location'',
           model_loaded := False\<rparr>, False)"
proof -
  have "\<not> model_loaded init" by (simp add: init_def)
  from load_model_absent [OF this empty_resolve] show ?thesis
    by (simp add: ensure_model_def is_model_available_def init_def)
qed

lemma huge_open:
  "Image_open example_pil huge_bytes
     = Inr (uniform_image (Some ''JPEG'') ''RGB'' 300 300 [200, 120, 40])"
  by (simp add: example_pil_def huge_bytes_def)

lemma bmp_open:
  "Image_open example_pil bmp_bytes
     = Inr (uniform_image (Some ''BMP'') ''RGB'' 20 20 [0, 0, 0])"
  by (simp add: example_pil_def bmp_bytes_def)

lemma gif_open:
  "Image_open example_pil gif_bytes = Inr (uniform_image (Some ''GIF'') ''P'' 100 100 [7])"
  by (simp add: example_pil_def gif_bytes_def)

lemma example_lengths:
  "50 * 1024 * 1024 < length huge_bytes"
  "\<not> 50 * 1024 * 1024 < length bmp_bytes"
  "\<not> 50 * 1024 * 1024 < length gif_bytes"
  "huge_bytes \<noteq> []" "bmp_bytes \<noteq> []" "gif_bytes \<noteq> []"
  by (simp_all add: huge_bytes_def bmp_bytes_def gif_bytes_def)

theorem predict_rejects_invalid_witness:
  "(\<exists>info. predict example_os example_pil example_cfg loaded_classifier huge_bytes =
       (loaded_classifier,
        [(''disease'', PStr ''error''), (''confidence'', PFloat 0.0),
         (''error'', PStr ''Invalid image: Image too large (>50MB)''),
         (''success'', PBool False), (''validation_info'', PDict info)],
        False))
   \<and> (\<exists>info. predict example_os example_pil example_cfg loaded_classifier bmp_bytes =
       (loaded_classifier,
        [(''disease'', PStr ''error''), (''confidence'', PFloat 0.0),
         (''error'', PStr ''Invalid image: Image too small (<50x50 pixels)''),
         (''success'', PBool False), (''validation_info'', PDict info)],
        False))
   \<and> is_valid (validate_image_data example_pil gif_bytes)
   \<and> map_of (validate_image_data example_pil gif_bytes) ''warning''
       = Some (PStr ''Unusual image format: GIF'')
   \<and> (\<exists>self'. predict empty_os example_pil example_cfg init huge_bytes =
       (self', get_fallback_prediction ''Model not available'', False))"
proof -
  note large = predict_rejects_invalid [OF example_lengths(4),
      where pil = example_pil and os = example_os and cfg = example_cfg
        and self = loaded_classifier and self' = loaded_classifier
        and img = "uniform_image (Some ''JPEG'') ''RGB'' 300 300 [200, 120, 40]"]
  note small = predict_rejects_invalid [OF example_lengths(5),
      where pil = example_pil and os = example_os and cfg = example_cfg
        and self = loaded_classifier and self' = loaded_classifier
        and img = "uniform_image (Some ''BMP'') ''RGB'' 20 20 [0, 0, 0]"]
  note other = predict_rejects_invalid [OF example_lengths(6),
      where pil = example_pil and os = example_os and cfg = example_cfg
        and self = loaded_classifier and self' = loaded_classifier
        and img = "uniform_image (Some ''GIF'') ''P'' 100 100 [7]"]
  note absent = predict_rejects_invalid [OF example_lengths(4),
      where pil = example_pil and os = empty_os and cfg = example_cfg and self = init
        and self' = "init\<lparr>load_error :=
              Some ''Model file not found in any expected location'',
            model_loaded := False\<rparr>"]
  have size_small: "fst (img_size (uniform_image (Some ''BMP'') ''RGB'' 20 20 [0, 0, 0])) < 50"
    by (simp add: uniform_image_def)
  have size_ok: "50 \<le> fst (img_size (uniform_image (Some ''GIF'') ''P'' 100 100 [7]))"
    "50 \<le> snd (img_size (uniform_image (Some ''GIF'') ''P'' 100 100 [7]))"
    by (simp_all add: uniform_image_def)
  have unlisted: "img_format (uniform_image (Some ''GIF'') ''P'' 100 100 [7])
      \<notin> set (map Some [''JPEG'', ''JPG'', ''PNG'', ''BMP'', ''TIFF''])"
    by (simp add: uniform_image_def)
  have name: "''Unusual image format: ''
      @ str_format (img_format (uniform_image (Some ''GIF'') ''P'' 100 100 [7]))
      = ''Unusual image format: GIF''"
    by (simp add: uniform_image_def str_format_def)
  from large loaded_available [of example_os example_cfg] huge_open example_lengths(1)
  have 1: "\<exists>info. predict example_os example_pil example_cfg loaded_classifier huge_bytes =
       (loaded_classifier,
        [(''disease'', PStr ''error''), (''confidence'', PFloat 0.0),
         (''error'', PStr ''Invalid image: Image too large (>50MB)''),
         (''success'', PBool False), (''validation_info'', PDict info)],
        False)"
    by simp
  from small loaded_available [of example_os example_cfg] bmp_open example_lengths(2)
    size_small
  have 2: "\<exists>info. predict example_os example_pil example_cfg loaded_classifier bmp_bytes =
       (loaded_classifier,
        [(''disease'', PStr ''error''), (''confidence'', PFloat 0.0),
         (''error'', PStr ''Invalid image: Image too small (<50x50 pixels)''),
         (''success'', PBool False), (''validation_info'', PDict info)],
        False)"
    by simp
  from other loaded_available [of example_os example_cfg] gif_open example_lengths(3)
    size_ok
  have 3: "is_valid (validate_image_data example_pil gif_bytes)"
    and "map_of (validate_image_data example_pil gif_bytes) ''warning'' =
        (if img_format (uniform_image (Some ''GIF'') ''P'' 100 100 [7]) \<in> set (map Some [''JPEG'', ''JPG'', ''PNG'', ''BMP'', ''TIFF''])
         then None
         else Some (PStr (''Unusual image format: ''
            @ str_format (img_format (uniform_image (Some ''GIF'') ''P'' 100 100 [7])))))"
    by blast+
  with unlisted name
  have 4: "map_of (validate_image_data example_pil gif_bytes) ''warning''
       = Some (PStr ''Unusual image format: GIF'')"
    by (simp only: if_False)
  from absent empty_os_load
  have 5: "\<exists>self'. predict empty_os example_pil example_cfg init huge_bytes =
       (self', get_fallback_prediction ''Model not available'', False)"
    by blast
  from 1 2 3 4 5 show ?thesis by blast
qed

lemma gif_preprocess:
  "preprocess_image example_pil gif_bytes
     = Some [map (map (map (\<lambda>v. v / 255)))
               (np_array (uniform_image None ''RGB'' 224 224 [7, 7, 7]))]"
proof (rule preprocess_image_returns)
  show "100 \<le> length gif_bytes" by (simp add: gif_bytes_def)
  show "open_checked example_pil gif_bytes
     = Inr (uniform_image (Some ''GIF'') ''P'' 100 100 [7])"
    by (simp add: open_checked_def gif_open)
  show "to_rgb example_pil (uniform_image (Some ''GIF'') ''P'' 100 100 [7])
     = Inr (uniform_image None ''RGB'' 100 100 [7, 7, 7])"
    by (simp add: to_rgb_def example_pil_def first_pixel_uniform)
       (simp add: uniform_image_def)
  show "Image_resize example_pil (uniform_image None ''RGB'' 100 100 [7, 7, 7]) target_size
     = Inr (uniform_image None ''RGB'' 224 224 [7, 7, 7])"
    by (simp add: example_pil_def target_size_def first_pixel_uniform)
       (simp add: uniform_image_def)
  show "has_shape3 (224, 224, 3)
      (img_data (uniform_image None ''RGB'' 224 224 [7, 7, 7]))"
    by (simp add: has_shape3_def uniform_image_def list_all_iff)
qed

lemma gif_validate:
  "validate_image_data example_pil gif_bytes =
     [(''valid'', PBool True), (''format'', PStr ''GIF''), (''mode'', PStr ''P''),
      (''size'', PTuple [PInt 100, PInt 100]), (''file_size'', PInt 203),
      (''warning'', PStr ''Unusual image format: GIF'')]"
  by (simp add: validate_image_data_def gif_open example_lengths)
     (simp add: gif_bytes_def uniform_image_def format_value_def str_format_def)

lemma gif_predict_try:
  "predict_try example_pil example_cfg loaded_classifier gif_bytes =
     (prediction_result ''healthy'' (info_of ''healthy'') (1 / 2) True example_scores, True)"
proof -
  have "predict_try example_pil example_cfg loaded_classifier gif_bytes =
     (prediction_result ''healthy'' (info_of ''healthy'') (1 / 2)
        (decide_threshold (float32_array [example_scores]) example_cfg (1 / 2)
           example_scores) example_scores,
      decide_threshold (float32_array [example_scores]) example_cfg (1 / 2) example_scores)"
  proof (rule predict_try_scored [OF gif_preprocess _ _ example_decision])
    show "model loaded_classifier = Some example_model"
      by (simp add: loaded_classifier_def)
    show "model_predict example_model t = Inr (Some (float32_array [example_scores]))" for t
      by (simp add: example_model_def)
    show "class_names ! 2 = ''healthy''" "2 < length class_names"
      by (simp_all add: class_names_def)
  qed simp_all
  with example_meets show ?thesis by simp
qed

text \<open>
  C7 as stated fails: a 100 by 100 GIF, a format outside the whitelist, passes the
  validation, is preprocessed, and is classified with \<open>success\<close> true.
\<close>

theorem predict_accepts_unlisted_format:
  "map_of (validate_image_data example_pil gif_bytes) ''format'' = Some (PStr ''GIF'')
   \<and> map_of (validate_image_data example_pil gif_bytes) ''valid'' = Some (PBool True)
   \<and> preprocess_image example_pil gif_bytes \<noteq> None
   \<and> map_of (fst (snd (predict example_os example_pil example_cfg loaded_classifier
                          gif_bytes))) ''success'' = Some (PBool True)"
proof -
  have "is_valid (validate_image_data example_pil gif_bytes)"
    by (simp add: gif_validate is_valid_def getitem_def)
  from predict_valid [OF example_lengths(6) loaded_available this]
  have "predict example_os example_pil example_cfg loaded_classifier gif_bytes =
      (loaded_classifier,
       prediction_result ''healthy'' (info_of ''healthy'') (1 / 2) True example_scores, True)"
    by (simp add: gif_predict_try)
  then show ?thesis
    by (simp add: gif_validate gif_preprocess prediction_result_fields)
qed

section \<open>Shape of every result\<close>

lemma prediction_result_scores:
  assumes "length arr = length class_names"
  shows "\<exists>scores. all_scores (prediction_result k info c m arr) = Some scores
           \<and> length scores = 5 \<and> map fst scores = class_names"
proof -
  have "length class_names = 5" by (simp add: class_names_def)
  with assms have "length (zip class_names arr) = 5"
    and "map fst (zip class_names arr) = class_names" by simp_all
  with all_scores_prediction_result [OF assms] show ?thesis by blast
qed

lemma fallback_scores:
  "\<exists>scores. all_scores (get_fallback_prediction reason) = Some scores
           \<and> length scores = 5 \<and> map fst scores = class_names"
  by (simp add: fallback_all_scores class_names_def)

lemma predict_try_scores:
  assumes "predict_try pil cfg self image_data = (res, flag)"
  shows "\<exists>scores. all_scores res = Some scores \<and> length scores = 5
           \<and> map fst scores = class_names"
  using predict_try_cases [OF assms] prediction_result_scores fallback_scores by metis

lemma predict_try_disease:
  assumes "predict_try pil cfg self image_data = (res, flag)"
  shows "\<exists>k. k \<in> set class_names \<and> map_of res ''disease'' = Some (PStr k)"
proof -
  from predict_try_cases [OF assms] show ?thesis
  proof (elim disjE exE conjE)
    fix reason assume "res = get_fallback_prediction reason"
    then have "map_of res ''disease'' = Some (PStr ''healthy'')"
      by (simp add: fallback_fields)
    moreover have "''healthy'' \<in> set class_names" by (simp add: class_names_def)
    ultimately show ?thesis by blast
  next
    fix arr idx raw info m batch predictions rest
    assume "idx < length class_names"
      and "res = prediction_result (class_names ! idx) info (clamp_confidence raw) flag arr"
    then have "map_of res ''disease'' = Some (PStr (class_names ! idx))"
      and "class_names ! idx \<in> set class_names"
      by (simp_all add: prediction_result_fields)
    then show ?thesis by blast
  qed
qed

text \<open>
  C1 (as amended). There are five class labels. On every path of \<^verbatim>\<open>predict\<close> that
  returns a prediction, a successful inference or a fallback of any kind, the score table
  \<^verbatim>\<open>all_predictions\<close> has exactly five entries, one per class label in order. The
  two error branches, empty input and failed validation, return an error result that has
  no \<^verbatim>\<open>all_predictions\<close> key.
\<close>

theorem all_predictions_length:
  assumes "predict os pil cfg self image_data = (self', res, flag)"
  shows "length class_names = 5
     \<and> (if error_branch os pil cfg self image_data
        then map_of res ''all_predictions'' = None \<and> all_scores res = None
        else (\<exists>scores. all_scores res = Some scores \<and> length scores = 5
                \<and> map fst scores = class_names))"
proof -
  have five: "length class_names = 5" by (simp add: class_names_def)
  from predict_cases [OF assms]
  have "if error_branch os pil cfg self image_data
        then map_of res ''all_predictions'' = None \<and> all_scores res = None
        else (\<exists>scores. all_scores res = Some scores \<and> length scores = 5
                \<and> map fst scores = class_names)"
  proof (elim disjE conjE)
    assume "image_data = []"
      and "res = [(''disease'', PStr ''error''), (''confidence'', PFloat 0.0),
                   (''error'', PStr ''No image data provided''), (''success'', PBool False)]"
    then show ?thesis by (simp add: error_branch_def all_scores_def)
  next
    assume "image_data \<noteq> []" "ensure_model os cfg self = (self', False)"
      and "res = get_fallback_prediction ''Model not available''"
    then show ?thesis using fallback_scores by (simp add: error_branch_def)
  next
    assume "image_data \<noteq> []" "ensure_model os cfg self = (self', True)"
      and "\<not> is_valid (validate_image_data pil image_data)"
      and "res = [(''disease'', PStr ''error''), (''confidence'', PFloat 0.0),
                   (''error'', PStr (''Invalid image: ''
                                     @ error_of (validate_image_data pil image_data))),
                   (''success'', PBool False),
                   (''validation_info'', PDict (validate_image_data pil image_data))]"
    then show ?thesis by (simp add: error_branch_def all_scores_def)
  next
    assume "image_data \<noteq> []" "ensure_model os cfg self = (self', True)"
      and "is_valid (validate_image_data pil image_data)"
      and "predict_try pil cfg self' image_data = (res, flag)"
    then show ?thesis using predict_try_scores by (simp add: error_branch_def)
  qed
  with five show ?thesis by simp
qed

text \<open>
  C3 (as amended). On every path of \<^verbatim>\<open>predict\<close> that returns a prediction, a
  successful inference or a fallback of any kind, the \<open>disease\<close> key is one of the five
  class labels. On the two error branches, empty input and failed validation, it is the
  string \<open>error\<close>, which is not a class label.
\<close>

theorem disease_key_label_or_error:
  assumes "predict os pil cfg self image_data = (self', res, flag)"
  shows "''error'' \<notin> set class_names
     \<and> (if error_branch os pil cfg self image_data
        then map_of res ''disease'' = Some (PStr ''error'')
        else (\<exists>k. k \<in> set class_names \<and> map_of res ''disease'' = Some (PStr k)))"
proof -
  have no: "''error'' \<notin> set class_names" by (simp add: class_names_def)
  have healthy: "''healthy'' \<in> set class_names" by (simp add: class_names_def)
  from predict_cases [OF assms]
  have "if error_branch os pil cfg self image_data
        then map_of res ''disease'' = Some (PStr ''error'')
        else (\<exists>k. k \<in> set class_names \<and> map_of res ''disease'' = Some (PStr k))"
  proof (elim disjE conjE)
    assume "image_data = []"
      and "res = [(''disease'', PStr ''error''), (''confidence'', PFloat 0.0),
                   (''error'', PStr ''No image data provided''), (''success'', PBool False)]"
    then show ?thesis by (simp add: error_branch_def)
  next
    assume "image_data \<noteq> []" "ensure_model os cfg self = (self', False)"
      and "res = get_fallback_prediction ''Model not available''"
    then show ?thesis using healthy by (simp add: error_branch_def fallback_fields)
  next
    assume "image_data \<noteq> []" "ensure_model os cfg self = (self', True)"
      and "\<not> is_valid (validate_image_data pil image_data)"
      and "res = [(''disease'', PStr ''error''), (''confidence'', PFloat 0.0),
                   (''error'', PStr (''Invalid image: ''
                                     @ error_of (validate_image_data pil image_data))),
                   (''success'', PBool False),
                   (''validation_info'', PDict (validate_image_data pil image_data))]"
    then show ?thesis by (simp add: error_branch_def)
  next
    assume "image_data \<noteq> []" "ensure_model os cfg self = (self', True)"
      and "is_valid (validate_image_data pil image_data)"
      and "predict_try pil cfg self' image_data = (res, flag)"
    then show ?thesis using predict_try_disease by (simp add: error_branch_def)
  qed
  with no show ?thesis by simp
qed

text \<open>
  C4 (as amended). On empty bytes \<^verbatim>\<open>predict\<close> returns at once: whatever the file
  system, the image library, the configuration and the classifier object are, the object
  is unchanged, the flag is false, and the result has \<open>disease\<close> \<open>error\<close>, confidence
  0.0, the \<open>error\<close> message \<open>No image data provided\<close> and \<open>success\<close> false. It has
  no \<open>fallback_reason\<close> field.
\<close>

theorem predict_empty:
  "predict os pil cfg self [] =
     (self,
      [(''disease'', PStr ''error''), (''confidence'', PFloat 0.0),
       (''error'', PStr ''No image data provided''), (''success'', PBool False)],
      False)"
  by (simp add: predict_def)

section \<open>The predictor on an absent model and on rejected input\<close>

lemma example_no_error:
  "\<not> error_branch example_os example_pil example_cfg loaded_classifier jpeg_bytes"
proof -
  have "jpeg_bytes \<noteq> []" by (simp add: jpeg_bytes_def)
  moreover have "is_valid (validate_image_data example_pil jpeg_bytes)"
    by (simp add: example_validate is_valid_def getitem_def)
  ultimately show ?thesis by (simp add: error_branch_def)
qed

lemma empty_os_predict:
  "predict empty_os example_pil example_cfg init jpeg_bytes =
     (init\<lparr>load_error := Some ''Model file not found in any expected location'',
           model_loaded := False\<rparr>,
      get_fallback_prediction ''Model not available'', False)"
  by (simp add: predict_def empty_os_load jpeg_bytes_def)

lemma empty_os_no_error:
  "\<not> error_branch empty_os example_pil example_cfg init jpeg_bytes"
  by (simp add: error_branch_def empty_os_load jpeg_bytes_def)

lemma bmp_predict:
  "predict example_os example_pil example_cfg loaded_classifier bmp_bytes =
     (loaded_classifier,
      [(''disease'', PStr ''error''), (''confidence'', PFloat 0.0),
       (''error'', PStr ''Invalid image: Image too small (<50x50 pixels)''),
       (''success'', PBool False),
       (''validation_info'', PDict (validate_image_data example_pil bmp_bytes))],
      False)"
proof -
  have small: "fst (img_size (uniform_image (Some ''BMP'') ''RGB'' 20 20 [0, 0, 0])) < 50
      \<or> snd (img_size (uniform_image (Some ''BMP'') ''RGB'' 20 20 [0, 0, 0])) < 50"
    by (simp add: uniform_image_def)
  note v = validate_too_small [OF example_lengths(5) bmp_open example_lengths(2) small]
  from predict_invalid [OF example_lengths(5) loaded_available v(1)] v(2)
  show ?thesis by simp
qed

theorem all_predictions_length_witness:
  "(\<exists>res scores.
       predict example_os example_pil example_cfg loaded_classifier jpeg_bytes
         = (loaded_classifier, res, True)
     \<and> all_scores res = Some scores \<and> length scores = 5 \<and> map fst scores = class_names)
   \<and> (\<exists>self' res scores.
       predict empty_os example_pil example_cfg init jpeg_bytes = (self', res, False)
     \<and> all_scores res = Some scores \<and> length scores = 5 \<and> map fst scores = class_names)"
proof -
  from all_predictions_length [OF example_predict] example_no_error
  have "\<exists>scores. all_scores (prediction_result ''healthy'' (info_of ''healthy'') (1 / 2) True
            example_scores) = Some scores
          \<and> length scores = 5 \<and> map fst scores = class_names"
    by simp
  moreover from all_predictions_length [OF empty_os_predict] empty_os_no_error
  have "\<exists>scores. all_scores (get_fallback_prediction ''Model not available'') = Some scores
          \<and> length scores = 5 \<and> map fst scores = class_names"
    by simp
  ultimately show ?thesis using example_predict empty_os_predict by blast
qed

text \<open>
  C1 as stated fails: on empty bytes, and on a 20 by 20 image with the model loaded, the
  result has no score table.
\<close>

theorem error_result_has_no_scores:
  "map_of (fst (snd (predict example_os example_pil example_cfg init [])))
      ''all_predictions'' = None
   \<and> all_scores (fst (snd (predict example_os example_pil example_cfg init []))) = None
   \<and> all_scores (fst (snd (predict example_os example_pil example_cfg loaded_classifier
                              bmp_bytes))) = None"
  by (simp add: bmp_predict all_scores_def) (simp add: predict_def)

theorem disease_key_label_or_error_witness:
  "(\<exists>res k.
       predict example_os example_pil example_cfg loaded_classifier jpeg_bytes
         = (loaded_classifier, res, True)
     \<and> k \<in> set class_names \<and> map_of res ''disease'' = Some (PStr k))
   \<and> (\<exists>self' res k.
       predict empty_os example_pil example_cfg init jpeg_bytes = (self', res, False)
     \<and> k \<in> set class_names \<and> map_of res ''disease'' = Some (PStr k))"
proof -
  from disease_key_label_or_error [OF example_predict] example_no_error
  have "\<exists>k. k \<in> set class_names
          \<and> map_of (prediction_result ''healthy'' (info_of ''healthy'') (1 / 2) True
                example_scores) ''disease'' = Some (PStr k)"
    by simp
  moreover from disease_key_label_or_error [OF empty_os_predict] empty_os_no_error
  have "\<exists>k. k \<in> set class_names
          \<and> map_of (get_fallback_prediction ''Model not available'') ''disease''
              = Some (PStr k)"
    by simp
  ultimately show ?thesis using example_predict empty_os_predict by blast
qed

text \<open>
  C3 as stated fails: on a 20 by 20 image with the model loaded, the \<open>disease\<close> key
  is \<open>error\<close>, which is not a class label.
\<close>

theorem invalid_image_disease_is_error:
  "map_of (fst (snd (predict example_os example_pil example_cfg loaded_classifier
                       bmp_bytes))) ''disease'' = Some (PStr ''error'')
   \<and> ''error'' \<notin> set class_names"
  by (simp add: bmp_predict class_names_def)

text \<open>
  C4 as stated fails: on empty bytes the \<open>disease\<close> key is \<open>error\<close>, not
  \<open>healthy\<close>, and the result has no \<open>fallback_reason\<close> field.
\<close>

theorem empty_input_is_not_fallback:
  "map_of (fst (snd (predict example_os example_pil example_cfg init []))) ''disease''
     = Some (PStr ''error'')
   \<and> map_of (fst (snd (predict example_os example_pil example_cfg init []))) ''disease''
     \<noteq> Some (PStr ''healthy'')
   \<and> map_of (fst (snd (predict example_os example_pil example_cfg init [])))
       ''fallback_reason'' = None"
  by (simp add: predict_def)

section \<open>Properties of the classifier object\<close>

lemma init_invariant: "model_invariant init"
  by (simp add: model_invariant_def init_def)

lemma load_model_invariant:
  assumes "model_invariant self"
  shows "model_invariant (fst (load_model os cfg self))"
proof (cases "model_loaded self")
  case True
  with assms show ?thesis by (simp add: load_model_loaded)
next
  case False
  obtain self' b where r: "load_model os cfg self = (self', b)"
    by (cases "load_model os cfg self")
  from load_model_flag [OF False r] show ?thesis
    by (cases b) (simp_all add: r model_invariant_def)
qed

lemma predict_state:
  "fst (predict os pil cfg self image_data) = self
   \<or> fst (predict os pil cfg self image_data) = fst (load_model os cfg self)"
proof -
  obtain self' res flag where p: "predict os pil cfg self image_data = (self', res, flag)"
    by (cases "predict os pil cfg self image_data")
  from predict_cases [OF p] have "self' = self \<or> self' = fst (ensure_model os cfg self)"
    by auto
  then show ?thesis by (auto simp: p ensure_model_def split: if_splits)
qed

lemma reachable_invariant: "reachable self \<Longrightarrow> model_invariant self"
proof (induction rule: reachable.induct)
  case reachable_init
  show ?case by (rule init_invariant)
next
  case (reachable_load_model self os cfg)
  then show ?case by (simp add: load_model_invariant)
next
  case (reachable_predict self os pil cfg image_data)
  with predict_state [of os pil cfg self image_data] show ?case
    by (auto simp: load_model_invariant)
qed

text \<open>
  C10. The invariant that \<open>model_loaded\<close> implies a model object holds after
  construction and is preserved by every call of \<^verbatim>\<open>load_model\<close>, whichever branch it
  takes; so on every reachable object \<^verbatim>\<open>is_model_available\<close> equals
  \<open>model_loaded\<close>.
\<close>

theorem model_loaded_implies_model:
  "model_invariant init
   \<and> (model_invariant self \<longrightarrow> model_invariant (fst (load_model os cfg self)))
   \<and> (reachable self \<longrightarrow> model_invariant self
        \<and> is_model_available self = model_loaded self)"
proof (intro conjI impI)
  show "model_invariant init" by (rule init_invariant)
  show "model_invariant (fst (load_model os cfg self))" if "model_invariant self"
    using that by (rule load_model_invariant)
  show "model_invariant self" if "reachable self"
    using that by (rule reachable_invariant)
  show "is_model_available self = model_loaded self" if "reachable self"
    using reachable_invariant [OF that]
    by (auto simp: is_model_available_def model_invariant_def)
qed

theorem model_loaded_implies_model_witness:
  "reachable loaded_classifier
   \<and> model_invariant (fst (load_model example_os example_cfg init))
   \<and> model_loaded loaded_classifier
   \<and> is_model_available loaded_classifier = model_loaded loaded_classifier
   \<and> reachable (fst (load_model corrupt_os example_cfg init))
   \<and> is_model_available (fst (load_model corrupt_os example_cfg init))
       = model_loaded (fst (load_model corrupt_os example_cfg init))"
proof -
  have l: "fst (load_model example_os example_cfg init) = loaded_classifier"
    by (simp add: example_load loaded_classifier_def)
  have r: "reachable loaded_classifier"
    using reachable_load_model [OF reachable_init, of example_os example_cfg]
    by (simp only: l)
  have r': "reachable (fst (load_model corrupt_os example_cfg init))"
    by (rule reachable_load_model [OF reachable_init])
  note a = model_loaded_implies_model [of init example_os example_cfg]
  note b = model_loaded_implies_model [of loaded_classifier example_os example_cfg]
  note c = model_loaded_implies_model [of "fst (load_model corrupt_os example_cfg init)"
      example_os example_cfg]
  from a have "model_invariant (fst (load_model example_os example_cfg init))" by blast
  moreover from b r
  have "is_model_available loaded_classifier = model_loaded loaded_classifier" by blast
  moreover from c r'
  have "is_model_available (fst (load_model corrupt_os example_cfg init))
       = model_loaded (fst (load_model corrupt_os example_cfg init))" by blast
  moreover have "model_loaded loaded_classifier" by (simp add: loaded_classifier_def)
  ultimately show ?thesis using r r' by blast
qed

end
